theory Spec2Isabelle
  imports Main "HOL-Library.AList"
begin

section \<open>Strings, paths and formatting\<close>

text \<open>
  Python strings are modelled as \<open>string\<close>. \<open>str_in needle hay\<close> is the Python
  expression \<open>needle in hay\<close> on strings.
\<close>

fun startswith :: "string \<Rightarrow> string \<Rightarrow> bool" where
  "startswith ys [] = True"
| "startswith [] (x # xs) = False"
| "startswith (y # ys) (x # xs) = (x = y \<and> startswith ys xs)"

fun str_in :: "string \<Rightarrow> string \<Rightarrow> bool" where
  "str_in needle [] = (needle = [])"
| "str_in needle (y # ys) = (startswith (y # ys) needle \<or> str_in needle ys)"

text \<open>\<open>str.lower()\<close> on ASCII text.\<close>

definition lower_char :: "char \<Rightarrow> char" where
  "lower_char c =
     (case map_of (zip ''ABCDEFGHIJKLMNOPQRSTUVWXYZ'' ''abcdefghijklmnopqrstuvwxyz'') c of
        None \<Rightarrow> c | Some d \<Rightarrow> d)"

definition lower :: "string \<Rightarrow> string" where
  "lower s = map lower_char s"

text \<open>The Windows path separator, and \<open>os.path.join\<close> of two components.\<close>

definition sep :: char where
  "sep = CHR 0x5C"

definition path_join :: "string \<Rightarrow> string \<Rightarrow> string" where
  "path_join a b = a @ [sep] @ b"

text \<open>
  \<open>os.path.basename\<close> (ntpath): the text after the last separator, \<open>/\<close>
  or backslash, once a drive letter prefix is dropped.
\<close>

definition drop_drive :: "string \<Rightarrow> string" where
  "drop_drive p = (if 2 \<le> length p \<and> p ! 1 = CHR '':'' then drop 2 p else p)"

definition basename :: "string \<Rightarrow> string" where
  "basename p = rev (takeWhile (\<lambda>c. c \<noteq> sep \<and> c \<noteq> CHR ''/'') (rev (drop_drive p)))"

text \<open>Decimal rendering of a natural number, as \<open>str(n)\<close> and f-strings do.\<close>

definition digit_char :: "nat \<Rightarrow> char" where
  "digit_char d = ''0123456789'' ! d"

function show_nat :: "nat \<Rightarrow> string" where
  "show_nat n = (if n < 10 then [digit_char n] else show_nat (n div 10) @ [digit_char (n mod 10)])"
  by pat_completeness auto
termination
  by (relation "measure id") auto

declare show_nat.simps [simp del]

section \<open>The host: file system, optional feature query, process table\<close>

type_synonym pid = nat

text \<open>
  One entry of the operating system's process table. The flags say how the process
  answers the calls the program makes on it: \<open>p_denied\<close> makes signalling it fail with
  an access error, \<open>p_ignores_terminate\<close> and \<open>p_ignores_kill\<close> mean that it is
  still there when the bounded wait after the request is over. \<open>p_name\<close> is
  \<open>None\<close> for a process whose name cannot be read: \<open>psutil.process_iter\<close> then
  reports the name \<open>None\<close>. The flags describe the process at the time of the host
  state they are part of.
\<close>

record os_proc =
  p_name :: "string option"
  p_cmdline :: "string list"
  p_create_time :: nat
  p_zombie :: bool
  p_denied :: bool
  p_ignores_terminate :: bool
  p_ignores_kill :: bool

text \<open>
  The host as the program sees it. \<open>fs\<close> lists the paths for which
  \<open>os.path.exists\<close> holds (a directory tree is represented by its root);
  \<open>rmtree_fails\<close> lists the directories that \<open>shutil.rmtree(d, ignore_errors=True)\<close>
  leaves in place; \<open>feature_stdout\<close> is the standard output of the PowerShell query
  \<open>Get-WindowsOptionalFeature ... 'Containers-DisposableClientVM'\<close>, or \<open>None\<close>
  when \<open>subprocess.run\<close> raises; \<open>spawned\<close> logs the command line of every process
  the program has started; \<open>now\<close> is \<open>int(time.time())\<close>.
\<close>

record world =
  fs :: "string list"
  rmtree_fails :: "string list"
  feature_stdout :: "string option"
  ptable :: "(pid \<times> os_proc) list"
  spawned :: "string list list"
  now :: nat
  tempdir :: string

definition path_exists :: "world \<Rightarrow> string \<Rightarrow> bool" where
  "path_exists w p = (p \<in> set (fs w))"

definition makedirs :: "world \<Rightarrow> string \<Rightarrow> world" where
  "makedirs w p = (if p \<in> set (fs w) then w else w\<lparr>fs := fs w @ [p]\<rparr>)"

definition rmtree_ignore_errors :: "world \<Rightarrow> string \<Rightarrow> world" where
  "rmtree_ignore_errors w p =
     (if p \<in> set (rmtree_fails w) then w else w\<lparr>fs := removeAll p (fs w)\<rparr>)"

definition proc_lookup :: "world \<Rightarrow> pid \<Rightarrow> os_proc option" where
  "proc_lookup w p = map_of (ptable w) p"

definition remove_proc :: "world \<Rightarrow> pid \<Rightarrow> world" where
  "remove_proc w p = w\<lparr>ptable := AList.delete p (ptable w)\<rparr>"

text \<open>\<open>psutil.process_iter\<close> yields the processes by ascending pid.\<close>

definition process_iter :: "world \<Rightarrow> (pid \<times> os_proc) list" where
  "process_iter w = sort_key fst (ptable w)"

text \<open>The exceptions that the modelled code can meet.\<close>

datatype py_exc =
  AttributeError | TypeError | KeyError | UnboundLocalError | OSError | PermissionError
  | NoSuchProcess | AccessDenied | TimeoutExpired

text \<open>
  A process object held by the program is either a \<open>subprocess.Popen\<close> or a
  \<open>psutil.Process\<close>; both carry the pid.
\<close>

datatype proc_handle = Popen pid | PsProcess pid

fun handle_pid :: "proc_handle \<Rightarrow> pid" where
  "handle_pid (Popen p) = p"
| "handle_pid (PsProcess p) = p"

text \<open>
  \<open>subprocess.Popen(cmd, ...)\<close>: the host answers with the pid of the new process, or
  with \<open>None\<close> when the call raises.
\<close>

definition new_proc :: "world \<Rightarrow> string list \<Rightarrow> os_proc" where
  "new_proc w cmd = \<lparr>p_name = Some (basename (case cmd of [] \<Rightarrow> [] | c # _ \<Rightarrow> c)), p_cmdline = cmd,
     p_create_time = now w, p_zombie = False, p_denied = False,
     p_ignores_terminate = False, p_ignores_kill = False\<rparr>"

definition popen :: "world \<Rightarrow> pid option \<Rightarrow> string list \<Rightarrow> (proc_handle \<times> world) option" where
  "popen w answer cmd =
     (case answer of
        None \<Rightarrow> None
      | Some p \<Rightarrow> Some (Popen p,
          w\<lparr>ptable := AList.update p (new_proc w cmd) (ptable w), spawned := spawned w @ [cmd]\<rparr>))"

text \<open>\<open>Popen.poll() is None\<close>: the child exists and has not exited.\<close>

definition po_poll_is_none :: "world \<Rightarrow> pid \<Rightarrow> bool" where
  "po_poll_is_none w p = (case proc_lookup w p of None \<Rightarrow> False | Some pr \<Rightarrow> \<not> p_zombie pr)"

text \<open>
  \<open>Popen.terminate()\<close> and \<open>Popen.kill()\<close>: nothing happens for a child that has
  exited; a child that may not be signalled raises \<open>PermissionError\<close>.
\<close>

definition po_terminate :: "world \<Rightarrow> pid \<Rightarrow> py_exc + world" where
  "po_terminate w p =
     (case proc_lookup w p of
        None \<Rightarrow> Inr w
      | Some pr \<Rightarrow>
          if p_zombie pr then Inr w
          else if p_denied pr then Inl PermissionError
          else if p_ignores_terminate pr then Inr w
          else Inr (remove_proc w p))"

definition po_kill :: "world \<Rightarrow> pid \<Rightarrow> py_exc + world" where
  "po_kill w p =
     (case proc_lookup w p of
        None \<Rightarrow> Inr w
      | Some pr \<Rightarrow>
          if p_zombie pr then Inr w
          else if p_denied pr then Inl PermissionError
          else if p_ignores_kill pr then Inr w
          else Inr (remove_proc w p))"

text \<open>\<open>Popen.wait(timeout=t)\<close>: raises \<open>TimeoutExpired\<close> when the child is still there.\<close>

definition po_wait :: "world \<Rightarrow> pid \<Rightarrow> py_exc option" where
  "po_wait w p = (if po_poll_is_none w p then Some TimeoutExpired else None)"

text \<open>
  \<open>psutil.Process(pid)\<close> raises \<open>NoSuchProcess\<close> for a pid that is not in the table.
  \<open>is_running()\<close> is true for a zombie too, which is why the program asks for the
  status as well.
\<close>

definition ps_process :: "world \<Rightarrow> pid \<Rightarrow> py_exc + proc_handle" where
  "ps_process w p = (case proc_lookup w p of None \<Rightarrow> Inl NoSuchProcess | Some _ \<Rightarrow> Inr (PsProcess p))"

definition ps_is_running :: "world \<Rightarrow> pid \<Rightarrow> bool" where
  "ps_is_running w p = (proc_lookup w p \<noteq> None)"

text \<open>\<open>process.status() != psutil.STATUS_ZOMBIE\<close>.\<close>

definition ps_status_not_zombie :: "world \<Rightarrow> pid \<Rightarrow> py_exc + bool" where
  "ps_status_not_zombie w p =
     (case proc_lookup w p of
        None \<Rightarrow> Inl NoSuchProcess
      | Some pr \<Rightarrow> if p_denied pr then Inl AccessDenied else Inr (\<not> p_zombie pr))"

definition ps_terminate :: "world \<Rightarrow> pid \<Rightarrow> py_exc + world" where
  "ps_terminate w p =
     (case proc_lookup w p of
        None \<Rightarrow> Inl NoSuchProcess
      | Some pr \<Rightarrow>
          if p_denied pr then Inl AccessDenied
          else if p_ignores_terminate pr then Inr w
          else Inr (remove_proc w p))"

definition ps_kill :: "world \<Rightarrow> pid \<Rightarrow> py_exc + world" where
  "ps_kill w p =
     (case proc_lookup w p of
        None \<Rightarrow> Inl NoSuchProcess
      | Some pr \<Rightarrow>
          if p_denied pr then Inl AccessDenied
          else if p_ignores_kill pr then Inr w
          else Inr (remove_proc w p))"

definition ps_wait :: "world \<Rightarrow> pid \<Rightarrow> py_exc option" where
  "ps_wait w p = (if proc_lookup w p \<noteq> None then Some TimeoutExpired else None)"

section \<open>Values returned across the sandbox boundary\<close>

text \<open>The text of an error entry: a literal message, or \<open>str(e)\<close> of a caught exception.\<close>

datatype err_text = Msg string | Raised py_exc

text \<open>
  The synthetic machine identity written by a built-in launch (the dictionary
  \<open>identity_data\<close>).
\<close>

record identity_data =
  id_hwid :: string
  id_mac :: string
  id_computer_name :: string
  id_ip_address :: string
  id_disk_serial :: string
  id_bios_uuid :: string
  id_motherboard_serial :: string
  id_cpu_id :: string
  id_user_name :: string
  id_sandbox_id :: string
  id_machine_guid :: string
  id_product_id :: string

text \<open>The dictionary \<open>process_info\<close> that a successful built-in launch returns.\<close>

record process_info =
  pi_pid :: pid
  pi_process :: proc_handle
  pi_executable :: string
  pi_start_time :: nat
  pi_in_sandbox :: bool
  pi_sandbox_name :: string
  pi_sandbox_type :: string
  pi_identity :: identity_data
  pi_window_title :: string

text \<open>A dictionary with \<open>"success": False\<close>; the optional keys are those some sites add.\<close>

record failure =
  f_error :: err_text
  f_in_sandbox :: "bool option"
  f_sandbox_name :: "string option"
  f_sandbox_type :: "string option"

text \<open>
  What \<open>launch_in_sandbox\<close> may return (its declared type is \<open>Any\<close>): a boolean, the
  built-in backend's process information, a failure dictionary, or Sandboxie's success
  dictionary \<open>{"success": True, "sandbox", "process", "pid"}\<close>.
\<close>

datatype launch_result =
  LBool bool
  | LProcessInfo process_info
  | LFailure failure
  | LSandboxie string proc_handle pid

text \<open>Python truthiness of such a value: every dictionary here is non-empty.\<close>

fun truthy :: "launch_result \<Rightarrow> bool" where
  "truthy (LBool b) = b"
| "truthy (LProcessInfo _) = True"
| "truthy (LFailure _) = True"
| "truthy (LSandboxie _ _ _) = True"

text \<open>\<open>isinstance(result, dict) and result.get("success") is not False\<close>.\<close>

fun is_dict_not_failed :: "launch_result \<Rightarrow> bool" where
  "is_dict_not_failed (LBool _) = False"
| "is_dict_not_failed (LProcessInfo _) = True"
| "is_dict_not_failed (LFailure _) = False"
| "is_dict_not_failed (LSandboxie _ _ _) = True"

text \<open>The health dictionaries; \<open>uptime\<close>, \<open>pid\<close> and \<open>start_time\<close> are left out.\<close>

record health =
  h_status :: string
  h_process_count :: "nat option"
  h_network_isolated :: "bool option"
  h_identity_spoofed :: "bool option"
  h_directory :: "string option"
  h_error :: "py_exc option"

definition health_status :: "string \<Rightarrow> health" where
  "health_status s = \<lparr>h_status = s, h_process_count = None, h_network_isolated = None,
     h_identity_spoofed = None, h_directory = None, h_error = None\<rparr>"

section \<open>BuiltInSandbox (app/utils/built\_in\_sandbox.py)\<close>

text \<open>One entry of \<open>BuiltInSandbox.sandboxes\<close>.\<close>

record bi_sandbox =
  sb_id :: string
  sb_running :: bool
  sb_processes :: "process_info list"
  sb_hwid :: string
  sb_mac :: string
  sb_computer_name :: string
  sb_creation_time :: nat
  sb_temp_dir :: "string option"
  sb_identity :: "identity_data option"

type_synonym built_in_sandbox = "string \<rightharpoonup> bi_sandbox"

text \<open>
  The values of the random expressions of \<open>create_sandbox\<close> and
  \<open>launch_in_sandbox\<close>, one field per expression, as the strings they evaluate to.
\<close>

record draws =
  d_uuid :: string
  d_hw_id :: string
  d_mac_address :: string
  d_computer_name :: string
  d_ip_address :: string
  d_disk_serial :: string
  d_bios_uuid :: string
  d_motherboard_serial :: string
  d_cpu_id :: string
  d_user_name :: string
  d_machine_guid :: string
  d_product_id :: string

text \<open>
  How the host answers one launch: whether creating the temporary directory and writing
  the files succeed, the pid \<open>Popen\<close> returns (\<open>None\<close>: it raises), whether the
  child has already exited when it is polled right after the start, the processes that
  have appeared when the settle delay is over, and the pids of the visible windows whose
  title contains the launch's window title.
\<close>

record launch_env =
  e_makedirs_ok :: bool
  e_write_ok :: bool
  e_popen :: "pid option"
  e_child_exited :: bool
  e_started :: "(pid \<times> os_proc) list"
  e_window_pids :: "pid list"

definition create_sandbox :: "built_in_sandbox \<Rightarrow> world \<Rightarrow> draws \<Rightarrow> string \<Rightarrow> bool \<times> built_in_sandbox" where
  "create_sandbox bs w d name =
     (True, bs(name \<mapsto> \<lparr>sb_id = d_uuid d, sb_running = False, sb_processes = [],
        sb_hwid = d_hw_id d, sb_mac = d_mac_address d, sb_computer_name = d_computer_name d,
        sb_creation_time = now w, sb_temp_dir = None, sb_identity = None\<rparr>))"

definition exc_failure :: "py_exc \<Rightarrow> string \<Rightarrow> launch_result" where
  "exc_failure e name = LFailure \<lparr>f_error = Raised e, f_in_sandbox = Some True,
     f_sandbox_name = Some name, f_sandbox_type = Some ''built_in''\<rparr>"

definition make_identity :: "bi_sandbox \<Rightarrow> draws \<Rightarrow> identity_data" where
  "make_identity sandbox d = \<lparr>id_hwid = sb_hwid sandbox, id_mac = sb_mac sandbox,
     id_computer_name = sb_computer_name sandbox, id_ip_address = d_ip_address d,
     id_disk_serial = d_disk_serial d, id_bios_uuid = d_bios_uuid d,
     id_motherboard_serial = d_motherboard_serial d, id_cpu_id = d_cpu_id d,
     id_user_name = d_user_name d, id_sandbox_id = sb_id sandbox,
     id_machine_guid = d_machine_guid d, id_product_id = d_product_id d\<rparr>"

text \<open>
  A loop over \<open>psutil.process_iter\<close> that stops at the first process whose lower-cased
  name satisfies a test. The name of a process that cannot be read is \<open>None\<close>, and
  \<open>None.lower()\<close> raises \<open>AttributeError\<close>; the handlers inside these loops catch
  \<open>NoSuchProcess\<close> and \<open>AccessDenied\<close> only, so that exception leaves the loop.
\<close>

fun first_named :: "(string \<Rightarrow> os_proc \<Rightarrow> bool) \<Rightarrow> (pid \<times> os_proc) list \<Rightarrow> py_exc + pid option" where
  "first_named P [] = Inr None"
| "first_named P ((p, pr) # rest) =
     (case p_name pr of
        None \<Rightarrow> Inl AttributeError
      | Some n \<Rightarrow> if P (lower n) pr then Inr (Some p) else first_named P rest)"

text \<open>
  The search for the game's own process, made after the settle delay: the first process
  whose lower-cased name is the executable's and that was created less than ten seconds
  ago; failing that, the owner of the first matching window, when that pid is still
  alive.
\<close>

definition find_game_process :: "world \<Rightarrow> string \<Rightarrow> pid list \<Rightarrow> py_exc + pid option" where
  "find_game_process w executable_path window_pids =
     (case first_named (\<lambda>n pr. n = lower (basename executable_path)
                           \<and> now w < p_create_time pr + 10) (process_iter w) of
        Inl e \<Rightarrow> Inl e
      | Inr (Some p) \<Rightarrow> Inr (Some p)
      | Inr None \<Rightarrow>
          Inr (case window_pids of
                 [] \<Rightarrow> None
               | p # _ \<Rightarrow> (case ps_process w p of Inl _ \<Rightarrow> None | Inr _ \<Rightarrow> Some p)))"

text \<open>
  \<open>launch_in_sandbox\<close>. After starting the batch file the method sleeps two seconds:
  the clock of the host it returns is two seconds later, and the processes that the
  batch file has started by then are in the table.
\<close>

definition bi_launch_in_sandbox ::
  "built_in_sandbox \<Rightarrow> world \<Rightarrow> draws \<Rightarrow> launch_env \<Rightarrow> string \<Rightarrow> string \<Rightarrow> string list
     \<Rightarrow> launch_result \<times> built_in_sandbox \<times> world" where
  "bi_launch_in_sandbox bs w d env name executable_path args =
     (let (created, bs1) = (if name \<notin> dom bs then create_sandbox bs w d name else (True, bs)) in
      if \<not> created then
        (LFailure \<lparr>f_error = Msg ''Failed to create sandbox'', f_in_sandbox = None,
           f_sandbox_name = None, f_sandbox_type = None\<rparr>, bs1, w)
      else
        (case bs1 name of
           None \<Rightarrow> (exc_failure KeyError name, bs1, w)
         | Some sandbox \<Rightarrow>
             let temp_dir = path_join (tempdir w) (''wydbot_identity_'' @ name @ ''_'' @ sb_id sandbox) in
             if \<not> e_makedirs_ok env then (exc_failure OSError name, bs1, w)
             else
               let w1 = makedirs w temp_dir;
                   identity = make_identity sandbox d;
                   batch_path = path_join temp_dir ''launch_game.bat''
               in
               if \<not> e_write_ok env then (exc_failure OSError name, bs1, w1)
               else
                 (case popen w1 (e_popen env) [batch_path] of
                    None \<Rightarrow> (exc_failure OSError name, bs1, w1)
                  | Some (process, w2) \<Rightarrow>
                      let w3 = w2\<lparr>ptable := ptable w2 @ e_started env, now := now w2 + 2\<rparr>;
                          window_title = ''WydBot_'' @ name @ ''_'' @ take 8 (sb_id sandbox)
                      in
                      (case find_game_process w3 executable_path (e_window_pids env) of
                         Inl e \<Rightarrow> (exc_failure e name, bs1, w3)
                       | Inr game_process \<Rightarrow>
                      let handle = (case game_process of
                                      None \<Rightarrow> process
                                    | Some p \<Rightarrow> PsProcess p);
                          info = \<lparr>pi_pid = handle_pid handle, pi_process = handle,
                            pi_executable = executable_path, pi_start_time = now w3,
                            pi_in_sandbox = True, pi_sandbox_name = name,
                            pi_sandbox_type = ''built_in'', pi_identity = identity,
                            pi_window_title = window_title\<rparr>;
                          sandbox' = sandbox\<lparr>sb_running := True, sb_temp_dir := Some temp_dir,
                            sb_identity := Some identity,
                            sb_processes := sb_processes sandbox @ [info]\<rparr>
                      in (LProcessInfo info, bs1(name \<mapsto> sandbox'), w3)))))"

text \<open>
  The body of the loop of \<open>terminate_sandbox\<close> for one process; an exception ends the
  iteration for that process and is logged. A \<open>psutil.Process\<close> has no \<open>poll\<close>, so the
  first call raises \<open>AttributeError\<close> for it.
\<close>

fun bi_terminate_process :: "world \<Rightarrow> proc_handle \<Rightarrow> world" where
  "bi_terminate_process w (PsProcess p) = w"
| "bi_terminate_process w (Popen p) =
     (if po_poll_is_none w p then
        (case po_terminate w p of
           Inl _ \<Rightarrow> w
         | Inr w1 \<Rightarrow>
             (case po_wait w1 p of
                Some _ \<Rightarrow> w1
              | None \<Rightarrow>
                  if po_poll_is_none w1 p
                  then (case po_kill w1 p of Inl _ \<Rightarrow> w1 | Inr w2 \<Rightarrow> w2)
                  else w1))
      else w)"

definition bi_terminate_sandbox :: "built_in_sandbox \<Rightarrow> world \<Rightarrow> string \<Rightarrow> bool \<times> built_in_sandbox \<times> world" where
  "bi_terminate_sandbox bs w name =
     (case bs name of
        None \<Rightarrow> (False, bs, w)
      | Some sandbox \<Rightarrow>
          let w1 = fold (\<lambda>info w'. bi_terminate_process w' (pi_process info)) (sb_processes sandbox) w;
              w2 = (case sb_temp_dir sandbox of
                      None \<Rightarrow> w1
                    | Some dir \<Rightarrow> if path_exists w1 dir then rmtree_ignore_errors w1 dir else w1)
          in (True, bs(name := None), w2))"

text \<open>
  The loop of \<open>check_sandbox_health\<close>: the processes whose \<open>poll()\<close> is \<open>None\<close>, or the
  exception of the first \<open>psutil.Process\<close> met.
\<close>

fun running_processes :: "world \<Rightarrow> process_info list \<Rightarrow> py_exc + process_info list" where
  "running_processes w [] = Inr []"
| "running_processes w (info # rest) =
     (case pi_process info of
        PsProcess p \<Rightarrow> Inl AttributeError
      | Popen p \<Rightarrow>
          (case running_processes w rest of
             Inl e \<Rightarrow> Inl e
           | Inr rs \<Rightarrow> Inr (if po_poll_is_none w p then info # rs else rs)))"

definition bi_check_sandbox_health :: "built_in_sandbox \<Rightarrow> world \<Rightarrow> string \<Rightarrow> health" where
  "bi_check_sandbox_health bs w name =
     (case bs name of
        None \<Rightarrow> health_status ''not_found''
      | Some sandbox \<Rightarrow>
          (case running_processes w (sb_processes sandbox) of
             Inl e \<Rightarrow> (health_status ''error'')\<lparr>h_error := Some e\<rparr>
           | Inr rs \<Rightarrow> (health_status (if rs \<noteq> [] then ''running'' else ''stopped''))
               \<lparr>h_process_count := Some (length rs), h_network_isolated := Some False,
                h_identity_spoofed := Some True\<rparr>))"

section \<open>WindowsSandbox (app/utils/windows\_sandbox.py)\<close>

fun win_path :: "string list \<Rightarrow> string" where
  "win_path [] = []"
| "win_path [c] = c"
| "win_path (c # cs) = c @ [sep] @ win_path cs"

definition sandbox_path :: string where
  "sandbox_path = win_path [''C:'', ''Windows'', ''System32'', ''WindowsSandbox.exe'']"

text \<open>One entry of \<open>WindowsSandbox.sandboxes\<close>; the key \<open>process\<close> is set by a launch.\<close>

record ws_sandbox =
  ws_dir :: string
  ws_config :: string
  ws_running :: bool
  ws_computer_name :: string
  ws_mac_address :: string
  ws_ip_address :: string
  ws_process :: "proc_handle option"

type_synonym windows_sandbox = "string \<rightharpoonup> ws_sandbox"

definition is_available :: "world \<Rightarrow> bool" where
  "is_available w =
     (if \<not> path_exists w sandbox_path then False
      else (case feature_stdout w of
              None \<Rightarrow> False
            | Some out \<Rightarrow> str_in ''State : Enabled'' out))"

definition create_sandbox_config ::
  "windows_sandbox \<Rightarrow> world \<Rightarrow> draws \<Rightarrow> launch_env \<Rightarrow> string \<Rightarrow> string option \<times> windows_sandbox \<times> world" where
  "create_sandbox_config ws w d env name =
     (let sandbox_dir = path_join (tempdir w) (''wydbot_winsandbox_'' @ name) in
      if \<not> e_makedirs_ok env then (None, ws, w)
      else
        let w1 = makedirs w sandbox_dir in
        if \<not> e_write_ok env then (None, ws, w1)
        else
          let config_path = path_join sandbox_dir (name @ ''_config.wsb'') in
          (Some config_path,
           ws(name \<mapsto> \<lparr>ws_dir = sandbox_dir, ws_config = config_path, ws_running = False,
              ws_computer_name = d_computer_name d, ws_mac_address = d_mac_address d,
              ws_ip_address = d_ip_address d, ws_process = None\<rparr>),
           w1))"

definition ws_launch_in_sandbox ::
  "windows_sandbox \<Rightarrow> world \<Rightarrow> draws \<Rightarrow> launch_env \<Rightarrow> string \<Rightarrow> bool \<times> windows_sandbox \<times> world" where
  "ws_launch_in_sandbox ws w d env name =
     (case create_sandbox_config ws w d env name of
        (None, ws1, w1) \<Rightarrow> (False, ws1, w1)
      | (Some config_path, ws1, w1) \<Rightarrow>
          (case popen w1 (e_popen env) [sandbox_path, config_path] of
             None \<Rightarrow> (False, ws1, w1)
           | Some (process, w2) \<Rightarrow>
               (case ws1 name of
                  None \<Rightarrow> (False, ws1, w2)
                | Some sandbox \<Rightarrow>
                    (True, ws1(name \<mapsto> sandbox\<lparr>ws_running := True, ws_process := Some process\<rparr>), w2))))"

text \<open>
  Stopping the host process in \<open>terminate_sandbox\<close>; the boolean is false when an
  exception leaves the block (the wait that times out, a refused signal).
\<close>

fun ws_stop_process :: "world \<Rightarrow> proc_handle \<Rightarrow> bool \<times> world" where
  "ws_stop_process w (PsProcess p) = (False, w)"
| "ws_stop_process w (Popen p) =
     (if po_poll_is_none w p then
        (case po_terminate w p of
           Inl _ \<Rightarrow> (False, w)
         | Inr w1 \<Rightarrow>
             (case po_wait w1 p of
                Some _ \<Rightarrow> (False, w1)
              | None \<Rightarrow>
                  if po_poll_is_none w1 p
                  then (case po_kill w1 p of Inl _ \<Rightarrow> (False, w1) | Inr w2 \<Rightarrow> (True, w2))
                  else (True, w1)))
      else (True, w))"

definition ws_terminate_sandbox :: "windows_sandbox \<Rightarrow> world \<Rightarrow> string \<Rightarrow> bool \<times> windows_sandbox \<times> world" where
  "ws_terminate_sandbox ws w name =
     (case ws name of
        None \<Rightarrow> (False, ws, w)
      | Some sandbox \<Rightarrow>
          let (ok, w1) = (case (if ws_running sandbox then ws_process sandbox else None) of
                            None \<Rightarrow> (True, w)
                          | Some process \<Rightarrow> ws_stop_process w process)
          in if \<not> ok then (False, ws, w1)
             else (True, ws(name := None), rmtree_ignore_errors w1 (ws_dir sandbox)))"

definition ws_check_sandbox_health :: "windows_sandbox \<Rightarrow> world \<Rightarrow> string \<Rightarrow> health" where
  "ws_check_sandbox_health ws w name =
     (case ws name of
        None \<Rightarrow> health_status ''not_found''
      | Some sandbox \<Rightarrow>
          (case ws_process sandbox of
             Some (PsProcess p) \<Rightarrow> (health_status ''error'')\<lparr>h_error := Some AttributeError\<rparr>
           | Some (Popen p) \<Rightarrow>
               (health_status (if po_poll_is_none w p then ''running'' else ''stopped''))
                 \<lparr>h_network_isolated := Some False, h_directory := Some (ws_dir sandbox)\<rparr>
           | None \<Rightarrow>
               (health_status ''stopped'')
                 \<lparr>h_network_isolated := Some False, h_directory := Some (ws_dir sandbox)\<rparr>))"

section \<open>SandboxManager (app/utils/sandbox\_manager.py)\<close>

text \<open>The configuration keys the manager and the launcher service read.\<close>

record config =
  c_sandboxie_path :: "string option"
  c_virtualbox_path :: "string option"
  c_games :: "(string \<times> string) list"

text \<open>The dictionary \<open>sandbox_executables\<close> with its three keys.\<close>

record executables =
  ex_sandboxie :: string
  ex_windows_sandbox :: string
  ex_virtualbox :: string

text \<open>
  One entry of \<open>SandboxManager.sandboxes\<close>. \<open>launch_in_sandbox\<close> writes the keys
  \<open>type\<close>, \<open>executable\<close>, \<open>creation_time\<close>; \<open>_launch_in_sandboxie\<close> writes
  \<open>type\<close>, \<open>process\<close>, \<open>pid\<close>, \<open>executable\<close>, \<open>start_time\<close>.
\<close>

record mgr_info =
  mi_type :: string
  mi_executable :: string
  mi_creation_time :: "nat option"
  mi_process :: "proc_handle option"
  mi_pid :: "pid option"
  mi_start_time :: "nat option"

record sandbox_manager =
  sandboxes :: "string \<rightharpoonup> mgr_info"
  sandbox_executables :: executables
  available_sandboxes :: "string list"
  built_in_sandbox :: built_in_sandbox
  windows_sandbox :: windows_sandbox

definition common_paths :: "string list" where
  "common_paths =
     [win_path [''C:'', ''Program Files'', ''Sandboxie'', ''Start.exe''],
      win_path [''C:'', ''Program Files'', ''Sandboxie-Plus'', ''Start.exe''],
      win_path [''C:'', ''Program Files (x86)'', ''Sandboxie'', ''Start.exe''],
      win_path [''C:'', ''Program Files (x86)'', ''Sandboxie-Plus'', ''Start.exe'']]"

definition is_sandboxie_available :: "executables \<Rightarrow> world \<Rightarrow> bool \<times> executables" where
  "is_sandboxie_available ex w =
     (if ex_sandboxie ex \<noteq> [] \<and> path_exists w (ex_sandboxie ex) then (True, ex)
      else (case find (path_exists w) common_paths of
              Some common_path \<Rightarrow> (True, ex\<lparr>ex_sandboxie := common_path\<rparr>)
            | None \<Rightarrow> (False, ex)))"

definition is_windows_sandbox_available :: "world \<Rightarrow> bool" where
  "is_windows_sandbox_available w =
     (case feature_stdout w of None \<Rightarrow> False | Some out \<Rightarrow> str_in ''Enabled'' out)"

definition is_virtualbox_available :: "executables \<Rightarrow> world \<Rightarrow> bool" where
  "is_virtualbox_available ex w =
     (if ex_virtualbox ex = [] then False else path_exists w (ex_virtualbox ex))"

definition check_available_sandboxes :: "executables \<Rightarrow> world \<Rightarrow> string list \<times> executables" where
  "check_available_sandboxes ex w =
     (let (sandboxie, ex1) = is_sandboxie_available ex w in
      ((if sandboxie then [''sandboxie''] else [])
        @ (if is_windows_sandbox_available w then [''windows_sandbox''] else [])
        @ (if is_virtualbox_available ex1 w then [''virtualbox''] else []), ex1))"

text \<open>\<open>SandboxManager.__init__\<close>.\<close>

definition manager_init :: "config \<Rightarrow> world \<Rightarrow> sandbox_manager" where
  "manager_init cfg w =
     (let ex = \<lparr>ex_sandboxie = (case c_sandboxie_path cfg of None \<Rightarrow> [] | Some p \<Rightarrow> p),
                ex_windows_sandbox = ''WindowsSandbox.exe'',
                ex_virtualbox = (case c_virtualbox_path cfg of None \<Rightarrow> [] | Some p \<Rightarrow> p)\<rparr>;
          (available, ex1) = check_available_sandboxes ex w;
          available1 = (if is_available w then available @ [''windows_sandbox''] else available)
      in \<lparr>sandboxes = Map.empty, sandbox_executables = ex1,
          available_sandboxes = available1 @ [''built_in''],
          built_in_sandbox = Map.empty, windows_sandbox = Map.empty\<rparr>)"

definition is_sandbox_available :: "sandbox_manager \<Rightarrow> string \<Rightarrow> bool" where
  "is_sandbox_available m sandbox_type = (sandbox_type \<in> set (available_sandboxes m))"

text \<open>
  \<open>get_available_sandboxes\<close> returns \<open>self.available_sandboxes.copy()\<close>; this is the
  content of that copy (the objects involved are modelled in the section on the list
  store below).
\<close>

definition get_available_sandboxes :: "sandbox_manager \<Rightarrow> string list" where
  "get_available_sandboxes m = available_sandboxes m"

definition stored_info :: "string \<Rightarrow> string \<Rightarrow> nat \<Rightarrow> mgr_info" where
  "stored_info sandbox_type executable_path t = \<lparr>mi_type = sandbox_type,
     mi_executable = executable_path, mi_creation_time = Some t, mi_process = None,
     mi_pid = None, mi_start_time = None\<rparr>"

definition plain_failure :: "err_text \<Rightarrow> launch_result" where
  "plain_failure e = LFailure \<lparr>f_error = e, f_in_sandbox = None, f_sandbox_name = None,
     f_sandbox_type = None\<rparr>"

text \<open>
  \<open>_launch_in_sandboxie\<close>. When the child has already exited, the error text is its
  standard error, or \<open>Unknown error\<close>; the model keeps the latter.
\<close>

definition launch_in_sandboxie ::
  "sandbox_manager \<Rightarrow> world \<Rightarrow> launch_env \<Rightarrow> string \<Rightarrow> string list \<Rightarrow> string
     \<Rightarrow> launch_result \<times> sandbox_manager \<times> world" where
  "launch_in_sandboxie m w env executable_path args name0 =
     (let sandboxie_path = ex_sandboxie (sandbox_executables m) in
      if sandboxie_path = [] then (plain_failure (Msg ''Sandboxie path not configured''), m, w)
      else if \<not> path_exists w sandboxie_path
        then (plain_failure (Msg (''Sandboxie executable not found at '' @ sandboxie_path)), m, w)
      else
        let name = (if name0 = [] then ''Sandbox_'' @ show_nat (now w) else name0);
            cmd = [sandboxie_path, ''/box:'' @ name, executable_path] @ args
        in (case popen w (e_popen env) cmd of
              None \<Rightarrow> (plain_failure (Raised OSError), m, w)
            | Some (process, w1) \<Rightarrow>
                if e_child_exited env
                then (plain_failure (Msg ''Unknown error''), m, remove_proc w1 (handle_pid process))
                else (LSandboxie name process (handle_pid process),
                      m\<lparr>sandboxes := (sandboxes m)(name \<mapsto> \<lparr>mi_type = ''sandboxie'',
                           mi_executable = executable_path, mi_creation_time = None,
                           mi_process = Some process, mi_pid = Some (handle_pid process),
                           mi_start_time = Some (now w1)\<rparr>)\<rparr>, w1)))"

text \<open>
  \<open>SandboxManager.launch_in_sandbox\<close>. The optional \<open>name\<close> is \<open>None\<close> or a string; an
  empty string counts as absent.
\<close>

definition launch_in_sandbox ::
  "sandbox_manager \<Rightarrow> world \<Rightarrow> draws \<Rightarrow> launch_env \<Rightarrow> string \<Rightarrow> string \<Rightarrow> string list
     \<Rightarrow> string option \<Rightarrow> launch_result \<times> sandbox_manager \<times> world" where
  "launch_in_sandbox m w d env sandbox_type executable_path args name_opt =
     (if \<not> is_sandbox_available m sandbox_type then (LBool False, m, w)
      else if \<not> path_exists w executable_path then (LBool False, m, w)
      else
        let name = (case name_opt of
                      None \<Rightarrow> ''sandbox_'' @ show_nat (now w)
                    | Some n \<Rightarrow> if n = [] then ''sandbox_'' @ show_nat (now w) else n)
        in
        if sandbox_type = ''built_in'' then
          (case bi_launch_in_sandbox (built_in_sandbox m) w d env name executable_path args of
             (result, bs, w1) \<Rightarrow>
               let m1 = m\<lparr>built_in_sandbox := bs\<rparr> in
               (result,
                if is_dict_not_failed result
                then m1\<lparr>sandboxes := (sandboxes m1)(name \<mapsto> stored_info ''built_in'' executable_path (now w1))\<rparr>
                else m1,
                w1))
        else if sandbox_type = ''windows_sandbox'' then
          (case ws_launch_in_sandbox (windows_sandbox m) w d env name of
             (result, ws, w1) \<Rightarrow>
               let m1 = m\<lparr>windows_sandbox := ws\<rparr> in
               (LBool result,
                if result
                then m1\<lparr>sandboxes := (sandboxes m1)(name \<mapsto> stored_info ''windows_sandbox'' executable_path (now w1))\<rparr>
                else m1,
                w1))
        else if sandbox_type = ''sandboxie'' then
          (case launch_in_sandboxie m w env executable_path args name of
             (result, m1, w1) \<Rightarrow>
               (result,
                if truthy result
                then m1\<lparr>sandboxes := (sandboxes m1)(name \<mapsto> stored_info ''sandboxie'' executable_path (now w1))\<rparr>
                else m1,
                w1))
        else if sandbox_type = ''virtualbox'' then
          (LBool True,
           m\<lparr>sandboxes := (sandboxes m)(name \<mapsto> stored_info ''virtualbox'' executable_path (now w))\<rparr>, w)
        else (LBool False, m, w))"

text \<open>
  The scan of \<open>psutil.process_iter\<close> for a Sandboxie process of the box: the name
  contains \<open>sandboxie\<close> once lower-cased, and some argument, lower-cased, contains
  \<open>/box:\<close> followed by the name as given.
\<close>

definition sandboxie_proc_matches :: "string \<Rightarrow> os_proc \<Rightarrow> bool" where
  "sandboxie_proc_matches name pr =
     (case p_name pr of
        None \<Rightarrow> False
      | Some n \<Rightarrow>
          n \<noteq> [] \<and> str_in ''sandboxie'' (lower n)
          \<and> p_cmdline pr \<noteq> [] \<and> list_ex (\<lambda>arg. str_in (''/box:'' @ name) (lower arg)) (p_cmdline pr))"

definition check_sandboxie_health :: "sandbox_manager \<Rightarrow> world \<Rightarrow> string \<Rightarrow> health" where
  "check_sandboxie_health m w name =
     (let scan = (case find (\<lambda>(p, pr). sandboxie_proc_matches name pr) (process_iter w) of
                    Some _ \<Rightarrow> (health_status ''running'')\<lparr>h_network_isolated := Some True\<rparr>
                  | None \<Rightarrow> health_status ''not_running'')
      in (case sandboxes m name of
            None \<Rightarrow> scan
          | Some info \<Rightarrow>
              (case mi_process info of
                 None \<Rightarrow> scan
               | Some (PsProcess p) \<Rightarrow> (health_status ''error'')\<lparr>h_error := Some AttributeError\<rparr>
               | Some (Popen p) \<Rightarrow>
                   if po_poll_is_none w p
                   then (health_status ''running'')\<lparr>h_network_isolated := Some True\<rparr>
                   else scan)))"

definition check_sandbox_health :: "sandbox_manager \<Rightarrow> world \<Rightarrow> string \<Rightarrow> health" where
  "check_sandbox_health m w name =
     (case sandboxes m name of
        None \<Rightarrow> health_status ''not_found''
      | Some info \<Rightarrow>
          if mi_type info = ''built_in'' then bi_check_sandbox_health (built_in_sandbox m) w name
          else if mi_type info = ''sandboxie'' then check_sandboxie_health m w name
          else if mi_type info = ''windows_sandbox'' then ws_check_sandbox_health (windows_sandbox m) w name
          else if mi_type info = ''virtualbox''
            then (health_status ''running'')\<lparr>h_network_isolated := Some True\<rparr>
          else health_status ''unknown_type'')"

text \<open>
  The second half of \<open>_terminate_sandboxie\<close>: every matching process of the snapshot is
  asked to terminate; one that is gone or refuses is skipped.
\<close>

fun terminate_matching :: "string \<Rightarrow> (pid \<times> os_proc) list \<Rightarrow> world \<Rightarrow> bool \<times> world" where
  "terminate_matching name [] w = (False, w)"
| "terminate_matching name ((p, pr) # rest) w =
     (if sandboxie_proc_matches name pr then
        (case ps_terminate w p of
           Inl _ \<Rightarrow> terminate_matching name rest w
         | Inr w1 \<Rightarrow> (True, snd (terminate_matching name rest w1)))
      else terminate_matching name rest w)"

definition terminate_sandboxie :: "sandbox_manager \<Rightarrow> world \<Rightarrow> string \<Rightarrow> bool \<times> sandbox_manager \<times> world" where
  "terminate_sandboxie m w name =
     (let by_scan = (\<lambda>w0. case terminate_matching name (process_iter w0) w0 of
                       (True, w1) \<Rightarrow> (True, m\<lparr>sandboxes := (sandboxes m)(name := None)\<rparr>, w1)
                     | (False, w1) \<Rightarrow> (False, m, w1))
      in (case sandboxes m name of
            None \<Rightarrow> by_scan w
          | Some info \<Rightarrow>
              (case mi_process info of
                 None \<Rightarrow> by_scan w
               | Some (PsProcess p) \<Rightarrow>
                   (case ps_terminate w p of
                      Inl _ \<Rightarrow> by_scan w
                    | Inr w1 \<Rightarrow>
                        (case ps_wait w1 p of
                           Some _ \<Rightarrow> by_scan w1
                         | None \<Rightarrow> (True, m\<lparr>sandboxes := (sandboxes m)(name := None)\<rparr>, w1)))
               | Some (Popen p) \<Rightarrow>
                   (case po_terminate w p of
                      Inl _ \<Rightarrow> by_scan w
                    | Inr w1 \<Rightarrow>
                        (case po_wait w1 p of
                           Some _ \<Rightarrow> by_scan w1
                         | None \<Rightarrow> (True, m\<lparr>sandboxes := (sandboxes m)(name := None)\<rparr>, w1))))))"

text \<open>
  \<open>SandboxManager.terminate_sandbox\<close>. Only the Sandboxie branch removes the name from
  the manager's own registry.
\<close>

definition terminate_sandbox :: "sandbox_manager \<Rightarrow> world \<Rightarrow> string \<Rightarrow> bool \<times> sandbox_manager \<times> world" where
  "terminate_sandbox m w name =
     (case sandboxes m name of
        None \<Rightarrow> (False, m, w)
      | Some info \<Rightarrow>
          if mi_type info = ''built_in'' then
            (case bi_terminate_sandbox (built_in_sandbox m) w name of
               (ok, bs, w1) \<Rightarrow> (ok, m\<lparr>built_in_sandbox := bs\<rparr>, w1))
          else if mi_type info = ''sandboxie'' then terminate_sandboxie m w name
          else if mi_type info = ''windows_sandbox'' then
            (case ws_terminate_sandbox (windows_sandbox m) w name of
               (ok, ws, w1) \<Rightarrow> (ok, m\<lparr>windows_sandbox := ws\<rparr>, w1))
          else if mi_type info = ''virtualbox'' then (True, m, w)
          else (False, m, w))"

section \<open>GameLauncherService (app/services/game\_launcher\_service.py)\<close>

text \<open>
  A dictionary stored in \<open>running_games\<close> by a sandboxed launch, with the keys the
  modelled methods read or write; a key that is absent is \<open>None\<close>.
\<close>

record game_info =
  gi_game_id :: "string option"
  gi_sandbox :: "string option"
  gi_sandbox_type :: "string option"
  gi_start_time :: "nat option"
  gi_in_sandbox :: "bool option"
  gi_process_info_pending :: "bool option"
  gi_process :: "proc_handle option"
  gi_pid :: "pid option"
  gi_terminated :: "bool option"
  gi_end_time :: "nat option"

text \<open>
  A value of \<open>running_games\<close>: \<open>launch_game\<close> stores the \<open>Popen\<close> object itself,
  the sandboxed launches store a dictionary, and the code also provides for a boolean.
\<close>

datatype rg_entry = Plain proc_handle | Legacy bool | Info game_info

text \<open>
  The service. \<open>running_games\<close> is a Python dictionary, whose keys keep their insertion
  order: an association list with distinct keys, written with \<open>AList.update\<close> and
  \<open>AList.delete\<close>. \<open>monitoring\<close> says that the monitor thread has been started.
\<close>

record service =
  games :: "string \<rightharpoonup> string"
  running_games :: "(string \<times> rg_entry) list"
  sandbox_manager :: sandbox_manager
  monitoring :: bool

definition register_game :: "service \<Rightarrow> world \<Rightarrow> string \<Rightarrow> string \<Rightarrow> bool \<times> service" where
  "register_game s w game_id game_path =
     (if \<not> path_exists w game_path then (False, s)
      else (True, s\<lparr>games := (games s)(game_id \<mapsto> game_path)\<rparr>))"

definition service_init :: "config \<Rightarrow> world \<Rightarrow> service" where
  "service_init cfg w =
     (let s0 = \<lparr>games = Map.empty, running_games = [], sandbox_manager = manager_init cfg w,
                 monitoring = False\<rparr>
      in fold (\<lambda>(game_id, game_path) s. snd (register_game s w game_id game_path)) (c_games cfg) s0)"

definition get_available_sandbox_types :: "service \<Rightarrow> string list" where
  "get_available_sandbox_types s = get_available_sandboxes (sandbox_manager s)"

text \<open>\<open>launch_game\<close>; \<open>answer\<close> is the host's answer to \<open>Popen\<close>.\<close>

definition launch_game :: "service \<Rightarrow> world \<Rightarrow> pid option \<Rightarrow> string \<Rightarrow> string list \<Rightarrow> bool \<times> service \<times> world" where
  "launch_game s w answer game_id args =
     (case games s game_id of
        None \<Rightarrow> (False, s, w)
      | Some game_path \<Rightarrow>
          if game_id \<in> fst ` set (running_games s) then (False, s, w)
          else
            (case popen w answer (game_path # args) of
               None \<Rightarrow> (False, s, w)
             | Some (process, w1) \<Rightarrow>
                 (True,
                  s\<lparr>running_games := AList.update game_id (Plain process) (running_games s),
                    monitoring := True\<rparr>,
                  w1)))"

text \<open>
  \<open>terminate_game\<close>, first block: the stored process object. \<open>Inl\<close> is an exception
  that leaves the method's \<open>try\<close> body; the boolean is the variable \<open>terminated\<close>.
\<close>

definition ps_kill_handler :: "world \<Rightarrow> pid \<Rightarrow> bool \<times> world" where
  "ps_kill_handler w p = (case ps_kill w p of Inr w1 \<Rightarrow> (True, w1) | Inl _ \<Rightarrow> (False, w))"

definition ps_terminate_then_kill :: "world \<Rightarrow> pid \<Rightarrow> bool \<times> world" where
  "ps_terminate_then_kill w p =
     (case ps_terminate w p of
        Inl _ \<Rightarrow> ps_kill_handler w p
      | Inr w1 \<Rightarrow> (case ps_wait w1 p of None \<Rightarrow> (True, w1) | Some _ \<Rightarrow> ps_kill_handler w1 p))"

definition terminate_by_process :: "world \<Rightarrow> game_info \<Rightarrow> (py_exc \<times> world) + (bool \<times> world)" where
  "terminate_by_process w gi =
     (case gi_process gi of
        None \<Rightarrow> Inr (False, w)
      | Some (PsProcess p) \<Rightarrow> Inr (ps_terminate_then_kill w p)
      | Some (Popen p) \<Rightarrow>
          (case po_terminate w p of
             Inl e \<Rightarrow> Inl (e, w)
           | Inr w1 \<Rightarrow>
               (case po_wait w1 p of
                  None \<Rightarrow> Inr (True, w1)
                | Some _ \<Rightarrow>
                    (case po_kill w1 p of
                       Inr w2 \<Rightarrow> Inr (True, w2)
                     | Inl _ \<Rightarrow> Inr (False, w1)))))"

text \<open>
  Second block: by pid. When \<open>psutil.Process(pid)\<close> raises, the handler's
  \<open>process.kill()\<close> meets the variable \<open>process\<close> as the first block left it: the
  stored object, or no binding at all.
\<close>

definition terminate_by_pid :: "world \<Rightarrow> game_info \<Rightarrow> pid \<Rightarrow> (py_exc \<times> world) + (bool \<times> world)" where
  "terminate_by_pid w gi pid =
     (case ps_process w pid of
        Inr _ \<Rightarrow> Inr (ps_terminate_then_kill w pid)
      | Inl _ \<Rightarrow>
          (case gi_process gi of
             None \<Rightarrow> Inl (UnboundLocalError, w)
           | Some (PsProcess q) \<Rightarrow> Inr (ps_kill_handler w q)
           | Some (Popen q) \<Rightarrow>
               (case po_kill w q of Inr w1 \<Rightarrow> Inr (True, w1) | Inl e \<Rightarrow> Inl (e, w))))"

definition terminate_game :: "service \<Rightarrow> world \<Rightarrow> string \<Rightarrow> bool \<times> service \<times> world" where
  "terminate_game s w instance_id =
     (case map_of (running_games s) instance_id of
        None \<Rightarrow> (False, s, w)
      | Some (Legacy b) \<Rightarrow> (False, s, w)
      | Some (Plain process) \<Rightarrow> (False, s, w)
      | Some (Info gi) \<Rightarrow>
          (case terminate_by_process w gi of
             Inl (e, w1) \<Rightarrow> (False, s, w1)
           | Inr (terminated, w1) \<Rightarrow>
               (case (if \<not> terminated \<and> gi_pid gi \<noteq> None
                      then terminate_by_pid w1 gi (the (gi_pid gi))
                      else Inr (terminated, w1)) of
                  Inl (e, w2) \<Rightarrow> (False, s, w2)
                | Inr (terminated2, w2) \<Rightarrow>
                    let (m, w3) =
                          (case gi_sandbox gi of
                             Some sandbox_name \<Rightarrow>
                               if gi_in_sandbox gi = Some True
                               then (case terminate_sandbox (sandbox_manager s) w2 sandbox_name of
                                       (ok, m1, w') \<Rightarrow> (m1, w'))
                               else (sandbox_manager s, w2)
                           | None \<Rightarrow> (sandbox_manager s, w2))
                    in (True,
                        s\<lparr>running_games := AList.delete instance_id (running_games s),
                          sandbox_manager := m\<rparr>,
                        w3))))"

text \<open>
  \<open>_update_running_games\<close>. \<open>ps_alive\<close> is
  \<open>process.is_running() and process.status() != psutil.STATUS_ZOMBIE\<close> with its handler.
\<close>

definition ps_alive :: "world \<Rightarrow> pid \<Rightarrow> bool" where
  "ps_alive w p =
     (ps_is_running w p \<and> (case ps_status_not_zombie w p of Inl _ \<Rightarrow> False | Inr b \<Rightarrow> b))"

definition process_is_running :: "world \<Rightarrow> game_info \<Rightarrow> bool" where
  "process_is_running w gi =
     (case gi_process gi of
        Some (PsProcess p) \<Rightarrow> ps_alive w p
      | Some (Popen p) \<Rightarrow> po_poll_is_none w p
      | None \<Rightarrow>
          (case gi_pid gi of
             None \<Rightarrow> False
           | Some p \<Rightarrow> (case ps_process w p of Inl _ \<Rightarrow> False | Inr _ \<Rightarrow> ps_alive w p)))"

text \<open>
  The sandbox part of one iteration, entered when the process is not running and the
  record is a sandboxed one: the built-in backend looks for any process named like the
  game's executable and adopts it; the other backends ask the manager for the health.
  \<open>Inl\<close> is an exception that leaves the loop of the pass.
\<close>

definition rediscover ::
  "(string \<rightharpoonup> string) \<Rightarrow> sandbox_manager \<Rightarrow> world \<Rightarrow> game_info \<Rightarrow> string
     \<Rightarrow> py_exc + (game_info \<times> bool)" where
  "rediscover gs m w gi sandbox_name =
     (if (case gi_sandbox_type gi of None \<Rightarrow> ''unknown'' | Some t \<Rightarrow> t) = ''built_in'' then
        (case gi_game_id gi of
           None \<Rightarrow> Inr (gi, False)
         | Some game_id \<Rightarrow>
             (case gs game_id of
                None \<Rightarrow> Inr (gi, False)
              | Some executable_path \<Rightarrow>
                  (case first_named (\<lambda>n pr. n = lower (basename executable_path)) (process_iter w) of
                     Inl e \<Rightarrow> Inl e
                   | Inr None \<Rightarrow> Inr (gi, False)
                   | Inr (Some p) \<Rightarrow>
                       Inr (gi\<lparr>gi_process := Some (PsProcess p), gi_pid := Some p\<rparr>, True))))
      else Inr (gi, h_status (check_sandbox_health m w sandbox_name) = ''running''))"

definition update_entry ::
  "(string \<rightharpoonup> string) \<Rightarrow> sandbox_manager \<Rightarrow> world \<Rightarrow> game_info \<Rightarrow> py_exc + (game_info \<times> bool)" where
  "update_entry gs m w gi =
     (let is_running = process_is_running w gi in
      if \<not> is_running \<and> gi_in_sandbox gi = Some True \<and> gi_sandbox gi \<noteq> None
      then rediscover gs m w gi (the (gi_sandbox gi))
      else Inr (gi, is_running))"

text \<open>
  The loop over the snapshot of the keys. The second component collects the instance ids
  for which a removal thread is started. A value that is not a dictionary has no
  \<open>get\<close>: the \<open>AttributeError\<close> ends the whole pass in the method's handler, with
  the entries after it not looked at; so does an exception from the search for a process.
\<close>

fun update_loop ::
  "(string \<rightharpoonup> string) \<Rightarrow> sandbox_manager \<Rightarrow> world \<Rightarrow> string list \<Rightarrow> (string \<times> rg_entry) list
     \<Rightarrow> string list \<Rightarrow> (string \<times> rg_entry) list \<times> string list" where
  "update_loop gs m w [] rg scheduled = (rg, scheduled)"
| "update_loop gs m w (instance_id # ids) rg scheduled =
     (case map_of rg instance_id of
        None \<Rightarrow> (rg, scheduled)
      | Some (Plain process) \<Rightarrow> (rg, scheduled)
      | Some (Legacy b) \<Rightarrow> (rg, scheduled)
      | Some (Info gi) \<Rightarrow>
          if gi_terminated gi = Some True then update_loop gs m w ids rg scheduled
          else
            (case update_entry gs m w gi of
               Inl e \<Rightarrow> (rg, scheduled)
             | Inr (gi1, True) \<Rightarrow> update_loop gs m w ids (AList.update instance_id (Info gi1) rg) scheduled
             | Inr (gi1, False) \<Rightarrow>
                 update_loop gs m w ids
                   (AList.update instance_id
                      (Info (gi1\<lparr>gi_terminated := Some True, gi_end_time := Some (now w)\<rparr>)) rg)
                   (scheduled @ [instance_id])))"

definition update_running_games :: "service \<Rightarrow> world \<Rightarrow> service \<times> string list" where
  "update_running_games s w =
     (case update_loop (games s) (sandbox_manager s) w (map fst (running_games s)) (running_games s) [] of
        (rg, scheduled) \<Rightarrow> (s\<lparr>running_games := rg\<rparr>, scheduled))"

text \<open>The body of a removal thread, run two seconds after it was started.\<close>

definition remove_after_delay :: "service \<Rightarrow> string \<Rightarrow> service" where
  "remove_after_delay s instance_id =
     (if instance_id \<in> fst ` set (running_games s)
      then s\<lparr>running_games := AList.delete instance_id (running_games s)\<rparr>
      else s)"

definition get_running_games :: "service \<Rightarrow> world \<Rightarrow> string list \<times> service \<times> string list" where
  "get_running_games s w =
     (case update_running_games s w of
        (s1, scheduled) \<Rightarrow> (map fst (running_games s1), s1, scheduled))"

text \<open>
  One round of \<open>_monitor_games\<close> in discrete time: the pass over the records, then the
  removals that the pass has started, each after its delay. \<open>monitor_games\<close> runs one
  round per given state of the host.
\<close>

definition monitor_round :: "service \<Rightarrow> world \<Rightarrow> service" where
  "monitor_round s w =
     (case update_running_games s w of
        (s1, scheduled) \<Rightarrow> fold (\<lambda>instance_id s'. remove_after_delay s' instance_id) scheduled s1)"

fun monitor_games :: "service \<Rightarrow> world list \<Rightarrow> service" where
  "monitor_games s [] = s"
| "monitor_games s (w # ws) = monitor_games (monitor_round s w) ws"

text \<open>
  \<open>launch_game_in_sandbox\<close>. \<open>uuid_hex\<close> is \<open>uuid.uuid4().hex\<close>, 32 hexadecimal
  digits, of which the instance id keeps the first eight.
\<close>

definition mk_instance_id :: "string \<Rightarrow> nat \<Rightarrow> string \<Rightarrow> string" where
  "mk_instance_id game_id t uuid_hex = game_id @ ''_'' @ show_nat t @ ''_'' @ take 8 uuid_hex"

definition sandboxed_entry :: "string \<Rightarrow> string \<Rightarrow> string \<Rightarrow> nat \<Rightarrow> game_info" where
  "sandboxed_entry game_id sandbox_name sandbox_type t =
     \<lparr>gi_game_id = Some game_id, gi_sandbox = Some sandbox_name,
      gi_sandbox_type = Some sandbox_type, gi_start_time = Some t, gi_in_sandbox = Some True,
      gi_process_info_pending = None, gi_process = None, gi_pid = None,
      gi_terminated = None, gi_end_time = None\<rparr>"

fun entry_of_result :: "launch_result \<Rightarrow> game_info \<Rightarrow> game_info option" where
  "entry_of_result (LBool b) gi = (if b then Some (gi\<lparr>gi_process_info_pending := Some True\<rparr>) else None)"
| "entry_of_result (LFailure f) gi = None"
| "entry_of_result (LProcessInfo info) gi =
     Some (gi\<lparr>gi_process := Some (pi_process info), gi_pid := Some (pi_pid info)\<rparr>)"
| "entry_of_result (LSandboxie name process pid) gi =
     Some (gi\<lparr>gi_process := Some process, gi_pid := Some pid\<rparr>)"

definition launch_game_in_sandbox ::
  "service \<Rightarrow> world \<Rightarrow> draws \<Rightarrow> launch_env \<Rightarrow> string \<Rightarrow> string \<Rightarrow> string \<Rightarrow> string list
     \<Rightarrow> bool \<times> service \<times> world" where
  "launch_game_in_sandbox s w d env uuid_hex game_id sandbox_type args =
     (case games s game_id of
        None \<Rightarrow> (False, s, w)
      | Some game_path \<Rightarrow>
          let instance_id = mk_instance_id game_id (now w) uuid_hex;
              sandbox_name = game_id @ ''_'' @ show_nat (now w)
          in (case launch_in_sandbox (sandbox_manager s) w d env sandbox_type game_path args
                     (Some sandbox_name) of
                (result, m, w1) \<Rightarrow>
                  (case entry_of_result result
                          (sandboxed_entry game_id sandbox_name sandbox_type (now w1)) of
                     None \<Rightarrow> (False, s\<lparr>sandbox_manager := m\<rparr>, w1)
                   | Some gi \<Rightarrow>
                       (True,
                        s\<lparr>running_games := AList.update instance_id (Info gi) (running_games s),
                          sandbox_manager := m, monitoring := True\<rparr>,
                        w1))))"

section \<open>The list object behind \<open>available_sandboxes\<close>\<close>








text \<open>\<open>isinstance(result, dict)\<close> with \<open>result.get("success") is False\<close>.\<close>

fun is_failure_dict :: "launch_result \<Rightarrow> bool" where
  "is_failure_dict (LBool _) = False"
| "is_failure_dict (LProcessInfo _) = False"
| "is_failure_dict (LFailure _) = True"
| "is_failure_dict (LSandboxie _ _ _) = False"

text \<open>The process information inside a result, when the result is one.\<close>

fun result_info :: "launch_result \<Rightarrow> process_info option" where
  "result_info (LProcessInfo info) = Some info"
| "result_info (LBool _) = None"
| "result_info (LFailure _) = None"
| "result_info (LSandboxie _ _ _) = None"

text \<open>
  Calls on a \<open>BuiltInSandbox\<close> object, each with the host as it is at that time, and
  their effect on \<open>self.sandboxes\<close>.
\<close>

datatype bi_call =
  CallLaunch world draws launch_env string string "string list"
  | CallTerminate world string

fun bi_apply :: "bi_call \<Rightarrow> built_in_sandbox \<Rightarrow> built_in_sandbox" where
  "bi_apply (CallLaunch w d env name executable_path args) bs =
     fst (snd (bi_launch_in_sandbox bs w d env name executable_path args))"
| "bi_apply (CallTerminate w name) bs = fst (snd (bi_terminate_sandbox bs w name))"

fun terminates :: "string \<Rightarrow> bi_call \<Rightarrow> bool" where
  "terminates name (CallLaunch w d env name' executable_path args) = False"
| "terminates name (CallTerminate w name') = (name' = name)"

text \<open>The values that \<open>create_sandbox\<close> draws and stores for a name.\<close>

definition identity_core :: "bi_sandbox \<Rightarrow> string \<times> string \<times> string \<times> string" where
  "identity_core sb = (sb_id sb, sb_hwid sb, sb_mac sb, sb_computer_name sb)"

text \<open>The process object of a value of \<open>running_games\<close>, when it has one.\<close>

fun entry_process :: "rg_entry \<Rightarrow> proc_handle option" where
  "entry_process (Plain process) = Some process"
| "entry_process (Legacy b) = None"
| "entry_process (Info gi) = gi_process gi"

section \<open>Concrete hosts and states\<close>

text \<open>A host on which the optional feature reports enabled and no file exists.\<close>

definition host_feature_only :: world where
  "host_feature_only = \<lparr>fs = [], rmtree_fails = [], feature_stdout = Some ''State : Enabled'',
     ptable = [], spawned = [], now = 1700000000, tempdir = ''C:/Temp''\<rparr>"

definition cfg_empty :: config where
  "cfg_empty = \<lparr>c_sandboxie_path = None, c_virtualbox_path = None, c_games = []\<rparr>"

text \<open>
  A host with a game executable and a Sandboxie launcher on disk, the feature query
  failing, and no process running.
\<close>

definition host_games :: world where
  "host_games = \<lparr>fs = [''C:/Games/demo.exe'', ''C:/Tools/Start.exe''], rmtree_fails = [],
     feature_stdout = None, ptable = [], spawned = [], now = 1700000000, tempdir = ''C:/Temp''\<rparr>"

definition cfg_sandboxie :: config where
  "cfg_sandboxie = \<lparr>c_sandboxie_path = Some ''C:/Tools/Start.exe'', c_virtualbox_path = None,
     c_games = [(''demo'', ''C:/Games/demo.exe'')]\<rparr>"

text \<open>Two sets of random values that differ in every field.\<close>

definition draws_a :: draws where
  "draws_a = \<lparr>d_uuid = ''11111111-aaaa'', d_hw_id = ''HWA'', d_mac_address = ''0a:00'',
     d_computer_name = ''PCA'', d_ip_address = ''192.168.1.10'', d_disk_serial = ''DSA'',
     d_bios_uuid = ''BUA'', d_motherboard_serial = ''MBA'', d_cpu_id = ''CPA'',
     d_user_name = ''User_1000'', d_machine_guid = ''MGA'', d_product_id = ''PIA''\<rparr>"

definition draws_b :: draws where
  "draws_b = \<lparr>d_uuid = ''22222222-bbbb'', d_hw_id = ''HWB'', d_mac_address = ''0b:00'',
     d_computer_name = ''PCB'', d_ip_address = ''192.168.2.20'', d_disk_serial = ''DSB'',
     d_bios_uuid = ''BUB'', d_motherboard_serial = ''MBB'', d_cpu_id = ''CPB'',
     d_user_name = ''User_2000'', d_machine_guid = ''MGB'', d_product_id = ''PIB''\<rparr>"

text \<open>A launch in which everything works and the child gets pid 500; one in which \<open>Popen\<close> raises.\<close>

definition env_ok :: launch_env where
  "env_ok = \<lparr>e_makedirs_ok = True, e_write_ok = True, e_popen = Some 500,
     e_child_exited = False, e_started = [], e_window_pids = []\<rparr>"

definition env_popen_fails :: launch_env where
  "env_popen_fails = \<lparr>e_makedirs_ok = True, e_write_ok = True, e_popen = None,
     e_child_exited = False, e_started = [], e_window_pids = []\<rparr>"

text \<open>
  A first built-in launch under the name \<open>box\<close> on \<open>host_games\<close>, and a second one
  under the same name right after it, with other random values.
\<close>

definition bi_first :: "launch_result \<times> built_in_sandbox \<times> world" where
  "bi_first = bi_launch_in_sandbox Map.empty host_games draws_a env_ok ''box'' ''C:/Games/demo.exe'' []"

definition bi_second :: "launch_result \<times> built_in_sandbox \<times> world" where
  "bi_second = (case bi_first of
                  (result, bs, w) \<Rightarrow>
                    bi_launch_in_sandbox bs w draws_b env_ok ''box'' ''C:/Games/demo.exe'' [])"

text \<open>The temporary directory of that sandbox, and a host on which it cannot be deleted.\<close>

definition box_temp_dir :: string where
  "box_temp_dir = path_join ''C:/Temp'' ''wydbot_identity_box_11111111-aaaa''"

definition host_locked :: world where
  "host_locked = host_games\<lparr>rmtree_fails := [box_temp_dir]\<rparr>"

definition bi_locked :: "launch_result \<times> built_in_sandbox \<times> world" where
  "bi_locked = bi_launch_in_sandbox Map.empty host_locked draws_a env_ok ''box'' ''C:/Games/demo.exe'' []"

definition bi_locked_terminated :: "bool \<times> built_in_sandbox \<times> world" where
  "bi_locked_terminated = (case bi_locked of (result, bs, w) \<Rightarrow> bi_terminate_sandbox bs w ''box'')"



text \<open>
  The launcher service started on \<open>host_games\<close> with the game \<open>demo\<close> registered,
  two values of \<open>uuid.uuid4().hex\<close> that differ after their first eight digits only,
  and a plain launch of \<open>demo\<close>.
\<close>

definition svc0 :: service where
  "svc0 = service_init cfg_sandboxie host_games"

definition uuid_a :: string where
  "uuid_a = ''deadbeef00000000000000000000000a''"

definition uuid_b :: string where
  "uuid_b = ''deadbeefffffffffffffffffffffffff''"

definition svc_plain :: "bool \<times> service \<times> world" where
  "svc_plain = launch_game svc0 host_games (Some 400) ''demo'' []"

text \<open>
  Two launches of \<open>demo\<close> through Sandboxie within the same second, the second one
  started from the state the first one leaves; their uuids differ and share the first
  eight digits. The children get the pids 500 and 501.
\<close>

definition env_ok2 :: launch_env where
  "env_ok2 = \<lparr>e_makedirs_ok = True, e_write_ok = True, e_popen = Some 501,
     e_child_exited = False, e_started = [], e_window_pids = []\<rparr>"

definition sbx_first :: "bool \<times> service \<times> world" where
  "sbx_first = launch_game_in_sandbox svc0 host_games draws_a env_ok uuid_a ''demo'' ''sandboxie'' []"

definition sbx_second :: "bool \<times> service \<times> world" where
  "sbx_second = (case sbx_first of
                   (ok, s, w) \<Rightarrow>
                     launch_game_in_sandbox s w draws_b env_ok2 uuid_b ''demo'' ''sandboxie'' [])"

text \<open>The same two launches made while a plain instance of \<open>demo\<close> is running.\<close>

definition plain_then_first :: "bool \<times> service \<times> world" where
  "plain_then_first = (case svc_plain of
                         (ok, s, w) \<Rightarrow>
                           launch_game_in_sandbox s w draws_a env_ok uuid_a ''demo'' ''sandboxie'' [])"

definition plain_then_second :: "bool \<times> service \<times> world" where
  "plain_then_second = (case plain_then_first of
                          (ok, s, w) \<Rightarrow>
                            launch_game_in_sandbox s w draws_b env_ok2 uuid_b ''demo'' ''sandboxie'' [])"

text \<open>
  The host ten seconds later, when every process started so far has exited; and the host
  thirty seconds later with the child 500 still running and answering neither a request
  to terminate nor a kill within the waits.
\<close>

definition host_after_exit :: world where
  "host_after_exit = host_games\<lparr>ptable := [], now := 1700000010\<rparr>"

definition host_stubborn :: world where
  "host_stubborn = host_games\<lparr>ptable := [(500, \<lparr>p_name = Some ''Start.exe'',
       p_cmdline = [''C:/Tools/Start.exe'', ''/box:demo_1700000000'', ''C:/Games/demo.exe''],
       p_create_time = 1700000000, p_zombie = False, p_denied = False,
       p_ignores_terminate = True, p_ignores_kill = True\<rparr>)], now := 1700000030\<rparr>"

section \<open>Properties\<close>

subsection \<open>Substring test\<close>

lemma startswith_iff: "startswith ys xs \<longleftrightarrow> (\<exists>zs. ys = xs @ zs)"
  by (induction ys xs rule: startswith.induct) auto

lemma str_in_iff: "str_in needle hay \<longleftrightarrow> (\<exists>ps ss. hay = ps @ needle @ ss)"
proof (induction hay)
  case Nil
  then show ?case by simp
next
  case (Cons y ys)
  show ?case
  proof
    assume "str_in needle (y # ys)"
    then consider "startswith (y # ys) needle" | "str_in needle ys" by auto
    then show "\<exists>ps ss. y # ys = ps @ needle @ ss"
    proof cases
      case 1
      then obtain zs where "y # ys = needle @ zs" by (auto simp: startswith_iff)
      then have "y # ys = [] @ needle @ zs" by simp
      then show ?thesis by blast
    next
      case 2
      then obtain ps ss where "ys = ps @ needle @ ss" using Cons.IH by auto
      then have "y # ys = (y # ps) @ needle @ ss" by simp
      then show ?thesis by blast
    qed
  next
    assume "\<exists>ps ss. y # ys = ps @ needle @ ss"
    then obtain ps ss where eq: "y # ys = ps @ needle @ ss" by blast
    show "str_in needle (y # ys)"
    proof (cases ps)
      case Nil
      then have "startswith (y # ys) needle" using eq by (auto simp: startswith_iff)
      then show ?thesis by simp
    next
      case (Cons p ps')
      then have "ys = ps' @ needle @ ss" using eq by simp
      then have "str_in needle ys" using Cons.IH by blast
      then show ?thesis by simp
    qed
  qed
qed

lemma str_in_suffix_part: "str_in (a @ b) hay \<Longrightarrow> str_in b hay"
proof -
  assume "str_in (a @ b) hay"
  then obtain ps ss where "hay = ps @ (a @ b) @ ss" by (auto simp: str_in_iff)
  then have "hay = (ps @ a) @ b @ ss" by simp
  then show ?thesis unfolding str_in_iff by blast
qed

subsection \<open>Backend discovery\<close>

lemma is_available_imp_feature: "is_available w \<Longrightarrow> is_windows_sandbox_available w"
proof -
  assume a: "is_available w"
  then obtain out where o: "feature_stdout w = Some out" and s: "str_in ''State : Enabled'' out"
    by (auto simp: is_available_def split: if_splits option.splits)
  have "str_in (''State : '' @ ''Enabled'') out" using s by simp
  then have "str_in ''Enabled'' out" by (rule str_in_suffix_part)
  then show ?thesis using o by (simp add: is_windows_sandbox_available_def)
qed

lemma windows_sandbox_in_checked:
  "''windows_sandbox'' \<in> set (fst (check_available_sandboxes ex w)) \<longleftrightarrow> is_windows_sandbox_available w"
  by (simp add: check_available_sandboxes_def Let_def split: prod.split)

lemma windows_sandbox_listed_iff:
  "''windows_sandbox'' \<in> set (available_sandboxes (manager_init cfg w)) \<longleftrightarrow> is_windows_sandbox_available w"
proof -
  let ?ex = "\<lparr>ex_sandboxie = (case c_sandboxie_path cfg of None \<Rightarrow> [] | Some p \<Rightarrow> p),
                ex_windows_sandbox = ''WindowsSandbox.exe'',
                ex_virtualbox = (case c_virtualbox_path cfg of None \<Rightarrow> [] | Some p \<Rightarrow> p)\<rparr>"
  obtain av ex1 where c: "check_available_sandboxes ?ex w = (av, ex1)" by (cases "check_available_sandboxes ?ex w")
  have av: "''windows_sandbox'' \<in> set av \<longleftrightarrow> is_windows_sandbox_available w"
    using windows_sandbox_in_checked[of ?ex w] c by simp
  have "set (available_sandboxes (manager_init cfg w)) =
      set av \<union> (if is_available w then {''windows_sandbox''} else {}) \<union> {''built_in''}"
    using c by (simp add: manager_init_def Let_def)
  then show ?thesis using av is_available_imp_feature[of w] by auto
qed

lemma built_in_last: "\<exists>xs. available_sandboxes (manager_init cfg w) = xs @ [''built_in'']"
  by (simp add: manager_init_def Let_def split: prod.split)

lemma service_init_manager: "sandbox_manager (service_init cfg w) = manager_init cfg w"
proof -
  have "sandbox_manager (fold (\<lambda>(game_id, game_path) s. snd (register_game s w game_id game_path)) gs s0) = sandbox_manager s0" for gs s0
    by (induction gs arbitrary: s0) (auto simp: register_game_def)
  then show ?thesis by (simp add: service_init_def Let_def)
qed

text \<open>
  C1. The claim: after discovery, the list of \<open>get_available_sandbox_types\<close> contains
  \<open>windows_sandbox\<close> only if the host binary exists and the feature reports enabled.
  On a host where the feature reports enabled and the binary
  named by \<open>sandbox_path\<close> is absent, \<open>WindowsSandbox.is_available\<close>
  is false, yet the list is \<open>windows_sandbox, built_in\<close>: the manager's own
  \<open>_is_windows_sandbox_available\<close> has already added the tag from the feature query alone.
\<close>

theorem windows_sandbox_listed_without_host_binary:
  "\<not> path_exists host_feature_only sandbox_path
   \<and> \<not> is_available host_feature_only
   \<and> get_available_sandbox_types (service_init cfg_empty host_feature_only)
       = [''windows_sandbox'', ''built_in'']"
  by (simp add: get_available_sandbox_types_def service_init_def manager_init_def
      get_available_sandboxes_def check_available_sandboxes_def is_sandboxie_available_def
      is_windows_sandbox_available_def is_virtualbox_available_def is_available_def
      path_exists_def host_feature_only_def cfg_empty_def common_paths_def sandbox_path_def)

subsection \<open>Launching through the manager\<close>

lemma avail_sbx:
  "available_sandboxes (manager_init cfg_sandboxie host_games) = [''sandboxie'', ''built_in'']"
  by (simp add: manager_init_def check_available_sandboxes_def is_sandboxie_available_def
      is_windows_sandbox_available_def is_virtualbox_available_def is_available_def
      path_exists_def host_games_def cfg_sandboxie_def sandbox_path_def)

text \<open>
  C5, as the code has it. For a backend tag that is not in the availability list, and for
  a tag outside the four the manager knows, \<open>launch_in_sandbox\<close> returns the boolean
  \<open>False\<close>, raises nothing and leaves the manager and the host as they were.
\<close>

theorem launch_unavailable_returns_false:
  assumes "\<not> is_sandbox_available m sandbox_type
           \<or> sandbox_type \<notin> {''built_in'', ''windows_sandbox'', ''sandboxie'', ''virtualbox''}"
  shows "launch_in_sandbox m w d env sandbox_type executable_path args name = (LBool False, m, w)"
  using assms by (auto simp: launch_in_sandbox_def)

theorem launch_unavailable_returns_false_witness:
  "\<not> is_sandbox_available (manager_init cfg_sandboxie host_games) ''windows_sandbox''
   \<and> launch_in_sandbox (manager_init cfg_sandboxie host_games) host_games draws_a env_ok
        ''windows_sandbox'' ''C:/Games/demo.exe'' [] None
      = (LBool False, manager_init cfg_sandboxie host_games, host_games)"
proof -
  have h: "\<not> is_sandbox_available (manager_init cfg_sandboxie host_games) ''windows_sandbox''"
    by (simp add: is_sandbox_available_def avail_sbx)
  then have "\<not> is_sandbox_available (manager_init cfg_sandboxie host_games) ''windows_sandbox''
           \<or> ''windows_sandbox'' \<notin> {''built_in'', ''windows_sandbox'', ''sandboxie'', ''virtualbox''}"
    by simp
  from launch_unavailable_returns_false [OF this] h show ?thesis by simp
qed

text \<open>
  C5, as the claim states it, fails: asking for \<open>virtualbox\<close> on a host where it is
  not available yields the bare boolean, which is no failure dictionary and so names
  neither the requested type nor the available alternatives.
\<close>

theorem unavailable_launch_is_not_structured:
  "\<not> is_sandbox_available (manager_init cfg_sandboxie host_games) ''virtualbox''
   \<and> fst (launch_in_sandbox (manager_init cfg_sandboxie host_games) host_games draws_a env_ok
        ''virtualbox'' ''C:/Games/demo.exe'' [] None) = LBool False
   \<and> \<not> is_failure_dict (fst (launch_in_sandbox (manager_init cfg_sandboxie host_games) host_games
        draws_a env_ok ''virtualbox'' ''C:/Games/demo.exe'' [] None))"
  by (simp add: is_sandbox_available_def avail_sbx launch_in_sandbox_def)

text \<open>
  C9. The claim: a launch that returns a failure leaves the manager's registry as it was.
  With Sandboxie available and \<open>Popen\<close> raising, \<open>_launch_in_sandboxie\<close> returns a
  failure dictionary; \<open>launch_in_sandbox\<close> tests it with \<open>if result:\<close>, a non-empty
  dictionary is true, and the registry gets an entry under the requested name.
\<close>

theorem sandboxie_failure_writes_registry:
  "(case launch_in_sandbox (manager_init cfg_sandboxie host_games) host_games draws_a
           env_popen_fails ''sandboxie'' ''C:/Games/demo.exe'' [] (Some ''box1'') of
      (result, m, w) \<Rightarrow>
        is_failure_dict result
        \<and> sandboxes (manager_init cfg_sandboxie host_games) ''box1'' = None
        \<and> sandboxes m ''box1'' = Some (stored_info ''sandboxie'' ''C:/Games/demo.exe'' 1700000000))"
  by (simp add: Let_def launch_in_sandbox_def launch_in_sandboxie_def is_sandbox_available_def avail_sbx
      path_exists_def host_games_def popen_def env_popen_fails_def plain_failure_def
      manager_init_def check_available_sandboxes_def is_sandboxie_available_def cfg_sandboxie_def
      is_windows_sandbox_available_def is_virtualbox_available_def is_available_def sandbox_path_def)

subsection \<open>Identity of a built-in sandbox\<close>

lemma launch_existing_keeps_core:
  assumes "bs name = Some sb"
  shows "\<exists>sb'. fst (snd (bi_launch_in_sandbox bs w d env name exe args)) name = Some sb' \<and> identity_core sb' = identity_core sb"
  using assms
  by (simp add: bi_launch_in_sandbox_def Let_def identity_core_def domIff
      split: option.split prod.split sum.split)

lemma launch_other_name:
  assumes "name' \<noteq> name"
  shows "fst (snd (bi_launch_in_sandbox bs w d env name' exe args)) name = bs name"
  using assms
  by (simp add: bi_launch_in_sandbox_def Let_def create_sandbox_def
      split: option.split prod.split sum.split)

lemma terminate_other_name:
  assumes "name' \<noteq> name"
  shows "fst (snd (bi_terminate_sandbox bs w name')) name = bs name"
  using assms
  by (simp add: bi_terminate_sandbox_def Let_def split: option.split)

lemma apply_keeps_core:
  assumes "bs name = Some sb" and "\<not> terminates name c"
  shows "\<exists>sb'. bi_apply c bs name = Some sb' \<and> identity_core sb' = identity_core sb"
proof (cases c)
  case (CallLaunch w d env name' exe args)
  show ?thesis
  proof (cases "name' = name")
    case True
    then show ?thesis using CallLaunch launch_existing_keeps_core[of bs name sb, OF assms(1)] by simp
  next
    case False
    then show ?thesis using CallLaunch assms(1) launch_other_name by simp
  qed
next
  case (CallTerminate w name')
  then have "name' \<noteq> name" using assms(2) by simp
  then show ?thesis using CallTerminate assms(1) terminate_other_name by simp
qed

lemma fold_keeps_core:
  assumes "bs name = Some sb" and "\<forall>c\<in>set calls. \<not> terminates name c"
  shows "\<exists>sb'. fold bi_apply calls bs name = Some sb' \<and> identity_core sb' = identity_core sb"
  using assms
proof (induction calls arbitrary: bs sb)
  case Nil
  then show ?case by simp
next
  case (Cons c calls)
  from apply_keeps_core[of bs name sb c, OF Cons.prems(1)] Cons.prems(2)
  obtain sb1 where s1: "bi_apply c bs name = Some sb1" and c1: "identity_core sb1 = identity_core sb" by auto
  from Cons.IH[of "bi_apply c bs" sb1, OF s1] Cons.prems(2)
  obtain sb' where "fold bi_apply calls (bi_apply c bs) name = Some sb'" and "identity_core sb' = identity_core sb1" by auto
  then show ?case using c1 by simp
qed

lemma launch_success_identity:
  assumes "bi_launch_in_sandbox bs w d env name exe args = (LProcessInfo i, bs', w')"
  shows "\<exists>sb'. bs' name = Some sb' \<and> pi_identity i = make_identity sb' d
           \<and> (\<forall>sb. bs name = Some sb \<longrightarrow> identity_core sb' = identity_core sb)"
  using assms
  by (auto simp: bi_launch_in_sandbox_def Let_def create_sandbox_def exc_failure_def identity_core_def make_identity_def domIff
      split: if_splits option.splits prod.splits sum.splits)

lemmas bi_eval = bi_launch_in_sandbox_def create_sandbox_def Let_def
  host_games_def draws_a_def draws_b_def env_ok_def popen_def makedirs_def make_identity_def
  find_game_process_def process_iter_def new_proc_def basename_def drop_drive_def
  path_join_def sep_def lower_def lower_char_def

lemma bi_first_ok: "\<exists>i. fst bi_first = LProcessInfo i"
  by (simp add: bi_first_def bi_eval)

lemma bi_second_ok: "\<exists>i. fst bi_second = LProcessInfo i"
  by (simp add: bi_second_def bi_first_def bi_eval)

text \<open>
  C3, as the code has it. Between a successful launch under a name and a later successful
  launch under the same name, with any launches and any terminations of other names in
  between, the values drawn by \<open>create_sandbox\<close> are reused: hwid, mac, computer name and
  sandbox id of the second identity are those of the first. The extended fields (ip
  address, disk, BIOS, motherboard and CPU identifiers, user name) are those the second
  launch draws itself.
\<close>

theorem identity_core_reused:
  assumes first: "bi_launch_in_sandbox bs w d env name exe args = (LProcessInfo i1, bs1, w1)"
      and between: "\<forall>c\<in>set calls. \<not> terminates name c"
      and second: "bi_launch_in_sandbox (fold bi_apply calls bs1) w2 d2 env2 name exe2 args2
                     = (LProcessInfo i2, bs3, w3)"
  shows "id_hwid (pi_identity i2) = id_hwid (pi_identity i1)
       \<and> id_mac (pi_identity i2) = id_mac (pi_identity i1)
       \<and> id_computer_name (pi_identity i2) = id_computer_name (pi_identity i1)
       \<and> id_sandbox_id (pi_identity i2) = id_sandbox_id (pi_identity i1)
       \<and> id_ip_address (pi_identity i2) = d_ip_address d2
       \<and> id_disk_serial (pi_identity i2) = d_disk_serial d2
       \<and> id_bios_uuid (pi_identity i2) = d_bios_uuid d2
       \<and> id_motherboard_serial (pi_identity i2) = d_motherboard_serial d2
       \<and> id_cpu_id (pi_identity i2) = d_cpu_id d2
       \<and> id_user_name (pi_identity i2) = d_user_name d2"
proof -
  from launch_success_identity[OF first]
  obtain sb1 where b1: "bs1 name = Some sb1" and i1: "pi_identity i1 = make_identity sb1 d" by blast
  from fold_keeps_core[of bs1 name sb1 calls, OF b1 between]
  obtain sb2 where b2: "fold bi_apply calls bs1 name = Some sb2"
    and c2: "identity_core sb2 = identity_core sb1" by blast
  from launch_success_identity[OF second] b2
  obtain sb3 where i2: "pi_identity i2 = make_identity sb3 d2"
    and c3: "identity_core sb3 = identity_core sb2" by blast
  from c2 c3 have "identity_core sb3 = identity_core sb1" by simp
  then show ?thesis using i1 i2 by (simp add: make_identity_def identity_core_def)
qed

theorem identity_core_reused_witness:
  "result_info (fst bi_first) \<noteq> None \<and> result_info (fst bi_second) \<noteq> None
   \<and> id_hwid (pi_identity (the (result_info (fst bi_second))))
       = id_hwid (pi_identity (the (result_info (fst bi_first))))
   \<and> id_mac (pi_identity (the (result_info (fst bi_second))))
       = id_mac (pi_identity (the (result_info (fst bi_first))))
   \<and> id_computer_name (pi_identity (the (result_info (fst bi_second))))
       = id_computer_name (pi_identity (the (result_info (fst bi_first))))
   \<and> id_ip_address (pi_identity (the (result_info (fst bi_second)))) = d_ip_address draws_b"
proof -
  obtain i1 where r1: "fst bi_first = LProcessInfo i1" using bi_first_ok by blast
  obtain i2 where r2: "fst bi_second = LProcessInfo i2" using bi_second_ok by blast
  have h1: "bi_launch_in_sandbox Map.empty host_games draws_a env_ok ''box'' ''C:/Games/demo.exe'' []
              = (LProcessInfo i1, fst (snd bi_first), snd (snd bi_first))"
    using r1 by (simp add: bi_first_def prod_eq_iff)
  have h2: "\<forall>c\<in>set []. \<not> terminates ''box'' c" by simp
  have h3: "bi_launch_in_sandbox (fold bi_apply [] (fst (snd bi_first))) (snd (snd bi_first)) draws_b
              env_ok ''box'' ''C:/Games/demo.exe'' []
              = (LProcessInfo i2, fst (snd bi_second), snd (snd bi_second))"
    using r2 by (simp add: bi_second_def split_beta prod_eq_iff)
  from identity_core_reused[OF h1 h2 h3] r1 r2 show ?thesis by simp
qed

text \<open>
  C3, as the claim states it, fails for the extended fields: two launches under the name
  \<open>box\<close> with nothing in between report different ip addresses.
\<close>

theorem extended_identity_redrawn:
  "map_option (id_ip_address \<circ> pi_identity) (result_info (fst bi_first)) = Some ''192.168.1.10''
   \<and> map_option (id_ip_address \<circ> pi_identity) (result_info (fst bi_second)) = Some ''192.168.2.20''"
  by (simp add: bi_first_def bi_second_def bi_eval)

subsection \<open>Terminating a built-in sandbox\<close>

lemma remove_proc_fs: "fs (remove_proc w p) = fs w \<and> rmtree_fails (remove_proc w p) = rmtree_fails w"
  by (simp add: remove_proc_def)

lemma po_terminate_fs: "po_terminate w p = Inr w1 \<Longrightarrow> fs w1 = fs w \<and> rmtree_fails w1 = rmtree_fails w"
  by (auto simp: po_terminate_def remove_proc_def split: option.splits if_splits)

lemma po_kill_fs: "po_kill w p = Inr w1 \<Longrightarrow> fs w1 = fs w \<and> rmtree_fails w1 = rmtree_fails w"
  by (auto simp: po_kill_def remove_proc_def split: option.splits if_splits)

lemma bi_terminate_process_fs:
  "fs (bi_terminate_process w h) = fs w \<and> rmtree_fails (bi_terminate_process w h) = rmtree_fails w"
proof (cases h)
  case (Popen p)
  show ?thesis
  proof (cases "po_terminate w p")
    case (Inl e)
    then show ?thesis using Popen by simp
  next
    case (Inr w1)
    note t = po_terminate_fs[OF Inr]
    show ?thesis
    proof (cases "po_kill w1 p")
      case (Inl e)
      then show ?thesis using Popen Inr t by (simp split: option.split)
    next
      case (Inr w2)
      then show ?thesis using Popen \<open>po_terminate w p = Inr w1\<close> t po_kill_fs[OF Inr]
        by (simp split: option.split)
    qed
  qed
next
  case (PsProcess p)
  then show ?thesis by simp
qed

lemma fold_terminate_fs:
  "fs (fold (\<lambda>info w'. bi_terminate_process w' (pi_process info)) infos w) = fs w
   \<and> rmtree_fails (fold (\<lambda>info w'. bi_terminate_process w' (pi_process info)) infos w) = rmtree_fails w"
  by (induction infos arbitrary: w) (simp_all add: bi_terminate_process_fs)

lemma bi_first_box:
  "\<exists>sb. fst (snd bi_first) ''box'' = Some sb \<and> sb_temp_dir sb = Some box_temp_dir"
  by (simp add: bi_first_def bi_eval box_temp_dir_def)

lemma bi_first_world:
  "rmtree_fails (snd (snd bi_first)) = [] \<and> path_exists (snd (snd bi_first)) box_temp_dir"
  by (simp add: bi_first_def bi_eval box_temp_dir_def path_exists_def)

text \<open>
  C7, as the code has it. \<open>terminate_sandbox\<close> on an existing built-in sandbox returns
  true and drops the name, so that a health check made afterwards, on any state of the
  host, reports \<open>not_found\<close>; and the temporary directory recorded for the sandbox no
  longer exists, provided the recursive delete did not fail on it.
\<close>

theorem terminate_sandbox_converges:
  assumes "bs name = Some sandbox"
  shows "fst (bi_terminate_sandbox bs w name)
       \<and> h_status (bi_check_sandbox_health (fst (snd (bi_terminate_sandbox bs w name))) w' name) = ''not_found''
       \<and> (\<forall>dir. sb_temp_dir sandbox = Some dir \<and> dir \<notin> set (rmtree_fails w)
              \<longrightarrow> \<not> path_exists (snd (snd (bi_terminate_sandbox bs w name))) dir)"
  using assms fold_terminate_fs[of "sb_processes sandbox" w]
  by (auto simp: bi_terminate_sandbox_def Let_def bi_check_sandbox_health_def health_status_def
      path_exists_def rmtree_ignore_errors_def)

theorem terminate_sandbox_converges_witness:
  "fst (snd bi_first) ''box'' \<noteq> None
   \<and> sb_temp_dir (the (fst (snd bi_first) ''box'')) = Some box_temp_dir
   \<and> box_temp_dir \<notin> set (rmtree_fails (snd (snd bi_first)))
   \<and> path_exists (snd (snd bi_first)) box_temp_dir
   \<and> fst (bi_terminate_sandbox (fst (snd bi_first)) (snd (snd bi_first)) ''box'')
   \<and> h_status (bi_check_sandbox_health
        (fst (snd (bi_terminate_sandbox (fst (snd bi_first)) (snd (snd bi_first)) ''box'')))
        (snd (snd bi_first)) ''box'') = ''not_found''
   \<and> \<not> path_exists (snd (snd (bi_terminate_sandbox (fst (snd bi_first)) (snd (snd bi_first)) ''box'')))
          box_temp_dir"
proof -
  obtain sb where f1: "fst (snd bi_first) ''box'' = Some sb" and f2: "sb_temp_dir sb = Some box_temp_dir"
    using bi_first_box by blast
  have f3: "box_temp_dir \<notin> set (rmtree_fails (snd (snd bi_first)))"
    and f4: "path_exists (snd (snd bi_first)) box_temp_dir"
    using bi_first_world by simp_all
  from terminate_sandbox_converges[of "fst (snd bi_first)" "''box''" sb "snd (snd bi_first)" "snd (snd bi_first)", OF f1]
    f1 f2 f3 f4
  show ?thesis by simp
qed

text \<open>
  C7, as the claim states it, fails: the delete ignores its errors, so on a host where
  the directory cannot be removed the call still returns true and drops the sandbox,
  and the directory is still there.
\<close>

theorem temp_dir_survives_failed_delete:
  "map_option sb_temp_dir (fst (snd bi_locked) ''box'') = Some (Some box_temp_dir)
   \<and> fst bi_locked_terminated
   \<and> fst (snd bi_locked_terminated) ''box'' = None
   \<and> path_exists (snd (snd bi_locked_terminated)) box_temp_dir"
  by (simp add: bi_locked_terminated_def bi_locked_def host_locked_def bi_eval box_temp_dir_def
      bi_terminate_sandbox_def path_exists_def rmtree_ignore_errors_def po_poll_is_none_def
      proc_lookup_def po_terminate_def po_wait_def remove_proc_def AList.delete_eq)

subsection \<open>The availability queries\<close>



subsection \<open>Instance ids\<close>

lemma digits_distinct: "distinct ''0123456789''"
  by simp

lemma digit_char_inj: "a < 10 \<Longrightarrow> b < 10 \<Longrightarrow> digit_char a = digit_char b \<Longrightarrow> a = b"
  using nth_eq_iff_index_eq[OF digits_distinct, of a b] by (simp add: digit_char_def)

lemma digit_char_in: "a < 10 \<Longrightarrow> digit_char a \<in> set ''0123456789''"
  unfolding digit_char_def by (rule nth_mem) simp

lemma show_nat_nonempty: "show_nat n \<noteq> []"
  by (subst show_nat.simps) simp

lemma show_nat_digits: "set (show_nat n) \<subseteq> set ''0123456789''"
proof (induction n rule: show_nat.induct)
  case (1 n)
  show ?case
  proof (cases "n < 10")
    case True
    then show ?thesis using digit_char_in[of n] by (subst show_nat.simps) simp
  next
    case False
    have "n mod 10 < 10" by simp
    then have "digit_char (n mod 10) \<in> set ''0123456789''" by (rule digit_char_in)
    then show ?thesis using False 1 by (subst show_nat.simps) simp
  qed
qed

lemma show_nat_no_underscore: "CHR ''_'' \<notin> set (show_nat n)"
  using show_nat_digits[of n] by auto

lemma show_nat_small: "n < 10 \<Longrightarrow> show_nat n = [digit_char n]"
  by (subst show_nat.simps) simp

lemma show_nat_large: "\<not> n < 10 \<Longrightarrow> show_nat n = show_nat (n div 10) @ [digit_char (n mod 10)]"
  by (subst show_nat.simps) simp

lemma show_nat_large_length: "\<not> n < 10 \<Longrightarrow> 2 \<le> length (show_nat n)"
proof -
  assume a: "\<not> n < 10"
  have "1 \<le> length (show_nat (n div 10))"
    using show_nat_nonempty[of "n div 10"] by (cases "show_nat (n div 10)") simp_all
  then show ?thesis by (simp add: show_nat_large[OF a])
qed

lemma show_nat_inj: "show_nat n = show_nat m \<Longrightarrow> n = m"
proof (induction n arbitrary: m rule: show_nat.induct)
  case (1 n)
  note eq = "1.prems"
  show ?case
  proof (cases "n < 10")
    case n: True
    show ?thesis
    proof (cases "m < 10")
      case True
      have "[digit_char n] = [digit_char m]"
        using eq show_nat_small[OF n] show_nat_small[OF True] by simp
      then have "digit_char n = digit_char m" by simp
      with n True show ?thesis by (rule digit_char_inj)
    next
      case False
      have "length (show_nat n) = 1" by (simp add: show_nat_small[OF n])
      moreover have "2 \<le> length (show_nat m)" using False by (rule show_nat_large_length)
      ultimately show ?thesis using eq by simp
    qed
  next
    case n: False
    show ?thesis
    proof (cases "m < 10")
      case True
      have "length (show_nat m) = 1" by (simp add: show_nat_small[OF True])
      moreover have "2 \<le> length (show_nat n)" using n by (rule show_nat_large_length)
      ultimately show ?thesis using eq by simp
    next
      case False
      have "show_nat (n div 10) @ [digit_char (n mod 10)] = show_nat (m div 10) @ [digit_char (m mod 10)]"
        using eq show_nat_large[OF n] show_nat_large[OF False] by simp
      then have e1: "show_nat (n div 10) = show_nat (m div 10)"
        and d: "digit_char (n mod 10) = digit_char (m mod 10)"
        by simp_all
      from "1.IH"[OF n e1] have q: "n div 10 = m div 10" .
      have "n mod 10 < 10" "m mod 10 < 10" by simp_all
      then have r: "n mod 10 = m mod 10" using d by (rule digit_char_inj)
      have "n = n div 10 * 10 + n mod 10" by simp
      also have "\<dots> = m div 10 * 10 + m mod 10" using q r by simp
      also have "\<dots> = m" by simp
      finally show ?thesis .
    qed
  qed
qed

lemma first_occurrence_unique:
  assumes "xs @ c # as = ys @ c # bs" and "c \<notin> set xs" and "c \<notin> set ys"
  shows "xs = ys \<and> as = bs"
  using assms
proof (induction xs arbitrary: ys)
  case Nil
  then show ?case by (cases ys) auto
next
  case (Cons x xs)
  then show ?case by (cases ys) auto
qed

lemma split_at_last_underscore:
  assumes "a @ CHR ''_'' # x = b @ CHR ''_'' # y"
      and "CHR ''_'' \<notin> set x" and "CHR ''_'' \<notin> set y"
  shows "a = b \<and> x = y"
proof -
  have "rev (a @ CHR ''_'' # x) = rev (b @ CHR ''_'' # y)" using assms(1) by simp
  then have "rev x @ CHR ''_'' # rev a = rev y @ CHR ''_'' # rev b" by simp
  moreover have "CHR ''_'' \<notin> set (rev x)" "CHR ''_'' \<notin> set (rev y)" using assms by simp_all
  ultimately have "rev x = rev y \<and> rev a = rev b" by (rule first_occurrence_unique)
  then show ?thesis by simp
qed

lemma mk_instance_id_inj:
  assumes "length u = 32" and "length u' = 32"
  shows "(mk_instance_id g n u = mk_instance_id g' n' u') = (g = g' \<and> n = n' \<and> take 8 u = take 8 u')"
proof
  assume eq: "mk_instance_id g n u = mk_instance_id g' n' u'"
  have l: "length (take 8 u) = length (take 8 u')" using assms by simp
  have "(g @ ''_'' @ show_nat n @ ''_'') @ take 8 u = (g' @ ''_'' @ show_nat n' @ ''_'') @ take 8 u'"
    using eq by (simp add: mk_instance_id_def)
  moreover have "((g @ ''_'' @ show_nat n @ ''_'') @ take 8 u = (g' @ ''_'' @ show_nat n' @ ''_'') @ take 8 u')
      = (g @ ''_'' @ show_nat n @ ''_'' = g' @ ''_'' @ show_nat n' @ ''_'' \<and> take 8 u = take 8 u')"
    by (rule append_eq_append_conv) (simp add: assms)
  ultimately have p: "g @ ''_'' @ show_nat n @ ''_'' = g' @ ''_'' @ show_nat n' @ ''_''"
    and t: "take 8 u = take 8 u'"
    by blast+
  from p have "(g @ ''_'' @ show_nat n) @ ''_'' = (g' @ ''_'' @ show_nat n') @ ''_''" by simp
  then have "g @ CHR ''_'' # show_nat n = g' @ CHR ''_'' # show_nat n'" by simp
  from split_at_last_underscore[OF this show_nat_no_underscore show_nat_no_underscore]
  have "g = g'" and "show_nat n = show_nat n'" by simp_all
  then show "g = g' \<and> n = n' \<and> take 8 u = take 8 u'" using t show_nat_inj by blast
next
  assume "g = g' \<and> n = n' \<and> take 8 u = take 8 u'"
  then show "mk_instance_id g n u = mk_instance_id g' n' u'" by (simp add: mk_instance_id_def)
qed

subsection \<open>Launching through the service\<close>

lemma entry_of_result_keeps:
  "entry_of_result r gi0 = Some gi \<Longrightarrow> gi_game_id gi = gi_game_id gi0 \<and> gi_in_sandbox gi = gi_in_sandbox gi0"
  by (cases r) (auto split: if_splits)

lemma launch_game_in_sandbox_success:
  assumes "fst (launch_game_in_sandbox s w d env u game_id t args)"
  shows "\<exists>gi. running_games (fst (snd (launch_game_in_sandbox s w d env u game_id t args)))
               = AList.update (mk_instance_id game_id (now w) u) (Info gi) (running_games s)
             \<and> gi_game_id gi = Some game_id \<and> gi_in_sandbox gi = Some True"
proof (cases "games s game_id")
  case None
  then show ?thesis using assms by (simp add: launch_game_in_sandbox_def)
next
  case (Some game_path)
  obtain result m w1 where l: "launch_in_sandbox (sandbox_manager s) w d env t game_path args
      (Some (game_id @ ''_'' @ show_nat (now w))) = (result, m, w1)"
    by (cases "launch_in_sandbox (sandbox_manager s) w d env t game_path args
      (Some (game_id @ ''_'' @ show_nat (now w)))") auto
  show ?thesis
  proof (cases "entry_of_result result
      (sandboxed_entry game_id (game_id @ ''_'' @ show_nat (now w)) t (now w1))")
    case None
    then show ?thesis using assms Some l by (simp add: launch_game_in_sandbox_def Let_def)
  next
    case (Some gi)
    from entry_of_result_keeps[OF Some]
    have "gi_game_id gi = Some game_id \<and> gi_in_sandbox gi = Some True"
      by (simp add: sandboxed_entry_def)
    then show ?thesis using \<open>games s game_id = Some game_path\<close> l Some
      by (auto simp: launch_game_in_sandbox_def Let_def)
  qed
qed

lemma update_absent_appends:
  "k \<notin> fst ` set al \<Longrightarrow> AList.update k v al = al @ [(k, v)]"
  by (induction al) auto

lemma launch_game_rejects_duplicate:
  assumes "game_id \<in> fst ` set (running_games s)"
  shows "launch_game s w answer game_id args = (False, s, w)"
  using assms by (simp add: launch_game_def split: option.split)

lemma launch_game_in_sandbox_ignores_records:
  "fst (launch_game_in_sandbox (s\<lparr>running_games := rg\<rparr>) w d env u game_id t args)
   = fst (launch_game_in_sandbox s w d env u game_id t args)"
  by (simp add: launch_game_in_sandbox_def Let_def split: option.split prod.split)

lemma sandboxed_launch_adds_record:
  assumes "fst (launch_game_in_sandbox s w d env u game_id t args)"
      and "mk_instance_id game_id (now w) u \<notin> fst ` set (running_games s)"
  shows "\<exists>gi. running_games (fst (snd (launch_game_in_sandbox s w d env u game_id t args)))
               = running_games s @ [(mk_instance_id game_id (now w) u, Info gi)]
             \<and> gi_game_id gi = Some game_id \<and> gi_in_sandbox gi = Some True"
  using launch_game_in_sandbox_success[OF assms(1)] update_absent_appends[OF assms(2)] by auto

lemma show_now: "show_nat 1700000000 = ''1700000000''"
  by (simp add: show_nat.simps digit_char_def)

lemma svc0_val: "svc0 = \<lparr>games = [''demo'' \<mapsto> ''C:/Games/demo.exe''], running_games = [],
    sandbox_manager = \<lparr>sandboxes = Map.empty,
       sandbox_executables = \<lparr>ex_sandboxie = ''C:/Tools/Start.exe'',
          ex_windows_sandbox = ''WindowsSandbox.exe'', ex_virtualbox = []\<rparr>,
       available_sandboxes = [''sandboxie'', ''built_in''],
       built_in_sandbox = Map.empty, windows_sandbox = Map.empty\<rparr>,
    monitoring = False\<rparr>"
  by (simp add: svc0_def service_init_def register_game_def manager_init_def check_available_sandboxes_def
      is_sandboxie_available_def is_windows_sandbox_available_def is_virtualbox_available_def
      is_available_def path_exists_def host_games_def cfg_sandboxie_def sandbox_path_def)

lemmas sbxie_eval = launch_game_in_sandbox_def launch_in_sandbox_def launch_in_sandboxie_def
  is_sandbox_available_def path_exists_def popen_def Let_def mk_instance_id_def
  sandboxed_entry_def stored_info_def show_now

lemma svc_plain_val:
  "svc_plain = (True,
     svc0\<lparr>running_games := [(''demo'', Plain (Popen 400))], monitoring := True\<rparr>,
     host_games\<lparr>ptable := [(400, new_proc host_games [''C:/Games/demo.exe''])],
                spawned := [[''C:/Games/demo.exe'']]\<rparr>)"
  by (simp add: svc_plain_def launch_game_def popen_def svc0_val host_games_def)

text \<open>
  C6. The claim: the instance ids of successful sandboxed launches are pairwise distinct.
  Two launches of \<open>demo\<close> through Sandboxie within the same second, whose uuids differ
  and share their first eight hexadecimal digits, both succeed and both start a process,
  and both get the id \<open>demo_1700000000_deadbeef\<close>: the second assignment to
  \<open>running_games\<close> replaces the record of the first launch, so that one record stands
  for two running children. The id has the stated form.
\<close>

theorem same_second_same_prefix_collide:
  "fst sbx_first \<and> fst sbx_second \<and> uuid_a \<noteq> uuid_b
   \<and> now (snd (snd sbx_first)) = now host_games
   \<and> map fst (running_games (fst (snd sbx_first))) = [''demo_1700000000_deadbeef'']
   \<and> map fst (running_games (fst (snd sbx_second))) = [''demo_1700000000_deadbeef'']
   \<and> proc_lookup (snd (snd sbx_second)) 500 \<noteq> None
   \<and> proc_lookup (snd (snd sbx_second)) 501 \<noteq> None"
  by (simp add: sbx_second_def sbx_first_def svc0_val sbxie_eval host_games_def env_ok_def
      env_ok2_def uuid_a_def uuid_b_def proc_lookup_def)

text \<open>
  C8. The claim: a plain instance blocks another plain launch, while every sandboxed
  launch mints a fresh id, so that sandboxed instances stand side by side. With a plain
  instance of \<open>demo\<close> running, the two Sandboxie launches above both succeed; the id the
  second one mints is already a key of \<open>running_games\<close>, and after it the service still
  holds the plain record and one sandboxed record, for three running processes. (That a
  plain launch is refused while the plain record is there, that a sandboxed launch never
  looks at the records, and that it adds a record whenever its id is new, are the lemmas
  \<open>launch_game_rejects_duplicate\<close>, \<open>launch_game_in_sandbox_ignores_records\<close> and
  \<open>sandboxed_launch_adds_record\<close>.)
\<close>

theorem second_sandboxed_id_not_fresh:
  "fst svc_plain \<and> fst plain_then_first \<and> fst plain_then_second
   \<and> mk_instance_id ''demo'' (now (snd (snd plain_then_first))) uuid_b
        \<in> fst ` set (running_games (fst (snd plain_then_first)))
   \<and> map fst (running_games (fst (snd plain_then_first))) = [''demo'', ''demo_1700000000_deadbeef'']
   \<and> map fst (running_games (fst (snd plain_then_second))) = [''demo'', ''demo_1700000000_deadbeef'']
   \<and> proc_lookup (snd (snd plain_then_second)) 500 \<noteq> None
   \<and> proc_lookup (snd (snd plain_then_second)) 501 \<noteq> None"
  by (simp add: plain_then_second_def plain_then_first_def svc_plain_val svc0_val sbxie_eval
      host_games_def env_ok_def env_ok2_def uuid_a_def uuid_b_def proc_lookup_def)

subsection \<open>The monitor\<close>

lemma update_loop_keeps_plain:
  assumes "map_of rg i = Some (Plain h)" and "i \<notin> set scheduled"
  shows "map_of (fst (update_loop gs m w ids rg scheduled)) i = Some (Plain h)
       \<and> i \<notin> set (snd (update_loop gs m w ids rg scheduled))"
  using assms
proof (induction ids arbitrary: rg scheduled)
  case Nil
  then show ?case by simp
next
  case (Cons instance_id ids)
  show ?case
  proof (cases "map_of rg instance_id")
    case None
    then show ?thesis using Cons.prems by simp
  next
    case (Some entry)
    show ?thesis
    proof (cases entry)
      case (Plain process)
      then show ?thesis using Some Cons.prems by simp
    next
      case (Legacy b)
      then show ?thesis using Some Cons.prems by simp
    next
      case (Info gi)
      then have ne: "instance_id \<noteq> i" using Some Cons.prems(1) by auto
      show ?thesis
      proof (cases "gi_terminated gi = Some True")
        case True
        then show ?thesis using Some Info Cons.IH[OF Cons.prems] by simp
      next
        case False
        show ?thesis
        proof (cases "update_entry gs m w gi")
          case (Inl e)
          then show ?thesis using Some Info False Cons.prems by simp
        next
          case (Inr r)
          obtain gi1 running where r: "r = (gi1, running)" by (cases r)
          have k: "map_of (AList.update instance_id e' rg) i = Some (Plain h)" for e'
            using ne Cons.prems(1) by (simp add: update_conv')
          have s: "i \<notin> set (scheduled @ [instance_id])" using ne Cons.prems(2) by simp
          show ?thesis
          proof (cases running)
            case True
            then show ?thesis using Some Info False Inr r Cons.IH[OF k Cons.prems(2)] by simp
          next
            case f: False
            then show ?thesis using Some Info False Inr r Cons.IH[OF k s] by simp
          qed
        qed
      qed
    qed
  qed
qed

lemma remove_others_keeps:
  assumes "i \<notin> set scheduled"
  shows "map_of (running_games (fold (\<lambda>instance_id s'. remove_after_delay s' instance_id) scheduled s)) i
       = map_of (running_games s) i"
  using assms
proof (induction scheduled arbitrary: s)
  case Nil
  then show ?case by simp
next
  case (Cons k ks)
  then have "k \<noteq> i" and "i \<notin> set ks" by auto
  have "map_of (running_games (remove_after_delay s k)) i = map_of (running_games s) i"
    using \<open>k \<noteq> i\<close> by (simp add: remove_after_delay_def delete_conv')
  then show ?case using Cons.IH[OF \<open>i \<notin> set ks\<close>, of "remove_after_delay s k"] by simp
qed

lemma monitor_round_keeps_plain:
  assumes "map_of (running_games s) i = Some (Plain h)"
  shows "map_of (running_games (monitor_round s w)) i = Some (Plain h)"
proof -
  obtain rg scheduled where u: "update_loop (games s) (sandbox_manager s) w (map fst (running_games s))
      (running_games s) [] = (rg, scheduled)"
    by (cases "update_loop (games s) (sandbox_manager s) w (map fst (running_games s)) (running_games s) []")
  from update_loop_keeps_plain[OF assms, of "[]" "games s" "sandbox_manager s" w "map fst (running_games s)"] u
  have a: "map_of rg i = Some (Plain h)" and b: "i \<notin> set scheduled" by simp_all
  show ?thesis using u a remove_others_keeps[OF b, of "s\<lparr>running_games := rg\<rparr>"]
    by (simp add: monitor_round_def update_running_games_def)
qed

lemma monitor_games_keeps_plain:
  assumes "map_of (running_games s) i = Some (Plain h)"
  shows "map_of (running_games (monitor_games s ws)) i = Some (Plain h)"
  using assms
proof (induction ws arbitrary: s)
  case Nil
  then show ?case by simp
next
  case (Cons w ws)
  from Cons.IH[OF monitor_round_keeps_plain[OF Cons.prems]] show ?case by simp
qed

lemma sandboxed_record_removed_after_round:
  "fst sbx_first
   \<and> map fst (running_games (fst (snd sbx_first))) = [''demo_1700000000_deadbeef'']
   \<and> running_games (monitor_round (fst (snd sbx_first)) host_after_exit) = []"
  by (simp add: sbx_first_def svc0_val sbxie_eval host_games_def env_ok_def uuid_a_def
      monitor_round_def update_running_games_def update_entry_def process_is_running_def
      po_poll_is_none_def proc_lookup_def host_after_exit_def rediscover_def
      check_sandbox_health_def check_sandboxie_health_def process_iter_def health_status_def
      remove_after_delay_def AList.delete_eq)

text \<open>
  C2. The claim: when the process of a tracked instance, plain or sandboxed, is killed,
  the monitor marks the record and the instance leaves \<open>get_running_games\<close> within a
  poll interval and the grace delay. \<open>launch_game\<close> stores the \<open>Popen\<close> object itself;
  \<open>_update_running_games\<close> calls \<open>get\<close> on it, the \<open>AttributeError\<close> ends the pass
  in the method's handler, and nothing is marked or scheduled. After the plain launch of
  \<open>demo\<close> and the exit of its process, a pass changes nothing, and after four rounds of
  the monitor (each a pass followed by the removals it started) the record is as it was
  and \<open>get_running_games\<close> still lists \<open>demo\<close>. Lemma \<open>monitor_games_keeps_plain\<close>
  says so for every plain record and any number of rounds; lemma
  \<open>sandboxed_record_removed_after_round\<close> shows a sandboxed record leaving after one.
\<close>

theorem plain_instance_never_leaves:
  "fst svc_plain
   \<and> monitoring (fst (snd svc_plain))
   \<and> map_of (running_games (fst (snd svc_plain))) ''demo'' = Some (Plain (Popen 400))
   \<and> proc_lookup host_after_exit 400 = None
   \<and> update_running_games (fst (snd svc_plain)) host_after_exit = (fst (snd svc_plain), [])
   \<and> running_games (monitor_games (fst (snd svc_plain))
         [host_after_exit, host_after_exit, host_after_exit, host_after_exit])
       = [(''demo'', Plain (Popen 400))]
   \<and> fst (get_running_games
         (monitor_games (fst (snd svc_plain))
            [host_after_exit, host_after_exit, host_after_exit, host_after_exit])
         host_after_exit) = [''demo'']"
  by (simp add: svc_plain_val update_running_games_def monitor_round_def get_running_games_def
      host_after_exit_def proc_lookup_def host_games_def)

subsection \<open>Terminating a game\<close>

lemma psutil_record_always_reported_terminated:
  assumes "map_of (running_games s) i = Some (Info gi)" and "gi_process gi = Some (PsProcess p)"
  shows "fst (terminate_game s w i)
       \<and> map_of (running_games (fst (snd (terminate_game s w i)))) i = None"
proof -
  have a: "terminate_by_process w gi = Inr (ps_terminate_then_kill w p)"
    using assms(2) by (simp add: terminate_by_process_def)
  obtain t w1 where b: "ps_terminate_then_kill w p = (t, w1)" by (cases "ps_terminate_then_kill w p")
  have c: "\<exists>t2 w2. terminate_by_pid w1 gi q = Inr (t2, w2)" for q
    using assms(2) by (cases "ps_kill_handler w1 p"; cases "ps_terminate_then_kill w1 q")
      (auto simp: terminate_by_pid_def split: sum.splits)
  show ?thesis
  proof (cases "\<not> t \<and> gi_pid gi \<noteq> None")
    case True
    then obtain q where q: "gi_pid gi = Some q" by auto
    from c[of q] obtain t2 w2 where d: "terminate_by_pid w1 gi q = Inr (t2, w2)" by blast
    show ?thesis using assms(1) a b True q d
      by (simp add: terminate_game_def delete_conv' split: option.split prod.split)
  next
    case False
    then show ?thesis using assms(1) a b
      by (auto simp: terminate_game_def delete_conv' split: option.split prod.split)
  qed
qed

text \<open>
  C4. The claim: when the process survives both the graceful termination and the kill,
  \<open>terminate_game\<close> returns false and leaves the record untouched. The record of the
  first Sandboxie launch above holds the child 500; on a host where that child answers
  neither the request to terminate (the wait of five seconds times out) nor the kill,
  \<open>terminate_game\<close> returns true and deletes the record, and the child is still in
  the process table: the variable \<open>terminated\<close> is set after a kill that raised nothing,
  set again after the sandbox was asked to terminate, and never read. Lemma
  \<open>psutil_record_always_reported_terminated\<close> shows the same outcome for every
  record that holds a \<open>psutil.Process\<close>, whatever the process does.
\<close>

theorem terminate_game_reports_success_for_survivor:
  "map_option entry_process
      (map_of (running_games (fst (snd sbx_first))) ''demo_1700000000_deadbeef'')
     = Some (Some (Popen 500))
   \<and> po_terminate host_stubborn 500 = Inr host_stubborn
   \<and> po_wait host_stubborn 500 = Some TimeoutExpired
   \<and> po_kill host_stubborn 500 = Inr host_stubborn
   \<and> fst (terminate_game (fst (snd sbx_first)) host_stubborn ''demo_1700000000_deadbeef'')
   \<and> map_of (running_games (fst (snd
        (terminate_game (fst (snd sbx_first)) host_stubborn ''demo_1700000000_deadbeef''))))
        ''demo_1700000000_deadbeef'' = None
   \<and> proc_lookup (snd (snd
        (terminate_game (fst (snd sbx_first)) host_stubborn ''demo_1700000000_deadbeef''))) 500
       \<noteq> None"
  by (simp add: sbx_first_def svc0_val sbxie_eval host_games_def env_ok_def uuid_a_def
      terminate_game_def terminate_by_process_def po_terminate_def po_wait_def po_kill_def
      po_poll_is_none_def proc_lookup_def host_stubborn_def terminate_sandbox_def
      terminate_sandboxie_def process_iter_def sandboxie_proc_matches_def lower_def lower_char_def
      AList.delete_eq)

end
